theory Spec2Isabelle
  imports Complex_Main "HOL-Library.Multiset" "HOL-Library.Product_Lexorder" "HOL-Library.Log_Nat"
begin

section \<open>Strings as the services use them\<close>

text \<open>
  A JavaScript string is modelled as a \<^typ>\<open>string\<close>: one \<^typ>\<open>char\<close> per code unit,
  restricted to the code units below 256. \<open>length\<close> is the \<open>.length\<close> of the source.
\<close>

text \<open>The white space of \<open>String.prototype.trim\<close> and of the regular expression class
  \<open>\s\<close>, among the code units below 256: TAB, LF, VT, FF, CR, SPACE and NBSP.\<close>

definition isWhiteSpace :: "char \<Rightarrow> bool" where
  "isWhiteSpace c \<longleftrightarrow>
     c \<in> set [CHR 0x09, CHR 0x0A, CHR 0x0B, CHR 0x0C, CHR 0x0D, CHR '' '', CHR 0xA0]"

text \<open>The characters that the regular expression atom \<open>.\<close> does not match.\<close>

definition isLineTerminator :: "char \<Rightarrow> bool" where
  "isLineTerminator c \<longleftrightarrow> c \<in> set [CHR 0x0A, CHR 0x0D]"

text \<open>\<open>String.prototype.toLowerCase\<close> on one code unit: the letters A to Z and the
  capital letters of Latin-1 (0xC0 to 0xDE without the multiplication sign) move up by 32,
  which sets one bit.\<close>

definition toLowerChar :: "char \<Rightarrow> char" where
  "toLowerChar c =
     (let n = (of_char c :: nat)
      in if (65 \<le> n \<and> n \<le> 90) \<or> (192 \<le> n \<and> n \<le> 222 \<and> n \<noteq> 215)
         then (case c of Char b0 b1 b2 b3 b4 b5 b6 b7 \<Rightarrow> Char b0 b1 b2 b3 b4 True b6 b7)
         else c)"

definition toLowerCase :: "string \<Rightarrow> string" where
  "toLowerCase s = map toLowerChar s"

text \<open>Case folding of the \<open>i\<close> flag of a regular expression, which only identifies
  the ASCII letters with each other when the pattern is ASCII.\<close>

definition foldCaseChar :: "char \<Rightarrow> char" where
  "foldCaseChar c =
     (let n = (of_char c :: nat)
      in if 65 \<le> n \<and> n \<le> 90
         then (case c of Char b0 b1 b2 b3 b4 b5 b6 b7 \<Rightarrow> Char b0 b1 b2 b3 b4 True b6 b7)
         else c)"

definition trim :: "string \<Rightarrow> string" where
  "trim s = rev (dropWhile isWhiteSpace (rev (dropWhile isWhiteSpace s)))"

text \<open>\<open>s.split(sep)\<close> for a separator of one character: the pieces between the
  separators, empty pieces included; the empty string gives one empty piece.\<close>

fun split_char :: "char \<Rightarrow> string \<Rightarrow> string list" where
  "split_char sep [] = [[]]"
| "split_char sep (c # cs) =
     (let r = split_char sep cs
      in if c = sep then [] # r else (c # hd r) # tl r)"

text \<open>\<open>s.split(/[...]+/)\<close> for a character class \<open>p\<close>: the text is cut at every
  maximal run of characters of the class.\<close>

function split_regex :: "(char \<Rightarrow> bool) \<Rightarrow> string \<Rightarrow> string list" where
  "split_regex p [] = [[]]"
| "split_regex p (c # cs) =
     (if p c then [] # split_regex p (dropWhile p cs)
      else (let r = split_regex p cs in (c # hd r) # tl r))"
  by pat_completeness auto
termination
  by (relation "measure (\<lambda>(p, s). length s)") (auto simp: length_dropWhile_le less_Suc_eq_le)

text \<open>\<open>xs.join(sep)\<close>.\<close>

fun join :: "string \<Rightarrow> string list \<Rightarrow> string" where
  "join sep [] = []"
| "join sep [x] = x"
| "join sep (x # y # ys) = x @ sep @ join sep (y # ys)"

text \<open>\<open>s.includes(sub)\<close>: \<open>sub\<close> occurs in \<open>s\<close> as a contiguous block.\<close>

fun isPrefix :: "string \<Rightarrow> string \<Rightarrow> bool" where
  "isPrefix [] s = True"
| "isPrefix (p # ps) [] = False"
| "isPrefix (p # ps) (c # cs) = (p = c \<and> isPrefix ps cs)"

fun str_includes :: "string \<Rightarrow> string \<Rightarrow> bool" where
  "str_includes [] sub = (sub = [])"
| "str_includes (c # cs) sub = (isPrefix sub (c # cs) \<or> str_includes cs sub)"

text \<open>\<open>xs.slice(0, n)\<close>: a negative end counts from the end of the array.\<close>

definition slice0 :: "int \<Rightarrow> 'a list \<Rightarrow> 'a list" where
  "slice0 n xs = (if 0 \<le> n then take (nat n) xs else take (nat (int (length xs) + n)) xs)"

section \<open>Numbers as the services use them\<close>

text \<open>
  A JavaScript number is an IEEE 754 double. It is modelled as the real number that it
  denotes, and every arithmetic operation of the source returns the exact result rounded to
  the nearest double: 53 significant bits, a tie going to the even significand. The range of
  exponents is not bounded, so the model leaves out overflow, subnormal numbers, infinities
  and NaN; the numbers that the services compute from lengths, counts, time stamps and the
  constants of the source stay far from all of them.
\<close>

text \<open>The exponent \<open>e\<close> of a number other than zero: \<open>2\<^sup>e \<le> |x| < 2\<^sup>e\<^sup>+\<^sup>1\<close>.\<close>

definition exponent :: "real \<Rightarrow> int" where
  "exponent x =
     (if 1 \<le> \<bar>x\<bar> then int (floorlog 2 (nat \<lfloor>\<bar>x\<bar>\<rfloor>)) - 1
      else - int (floorlog 2 (nat (\<lceil>1 / \<bar>x\<bar>\<rceil> - 1))))"

text \<open>The nearest integer, a tie going to the even one.\<close>

definition roundEven :: "real \<Rightarrow> int" where
  "roundEven m =
     (let f = \<lfloor>m\<rfloor>; d = m - of_int f
      in if d < 1 / 2 then f else if 1 / 2 < d then f + 1 else if even f then f else f + 1)"

text \<open>The nearest double; a literal \<open>0.4\<close> of the source is \<open>round64 0.4\<close>.\<close>

definition round64 :: "real \<Rightarrow> real" where
  "round64 x =
     (if x = 0 then 0
      else (let u = 2 powi (exponent x - 52) in of_int (roundEven (x / u)) * u))"

definition fadd :: "real \<Rightarrow> real \<Rightarrow> real" where
  "fadd x y = round64 (x + y)"

definition fmul :: "real \<Rightarrow> real \<Rightarrow> real" where
  "fmul x y = round64 (x * y)"

definition fdiv :: "real \<Rightarrow> real \<Rightarrow> real" where
  "fdiv x y = round64 (x / y)"

definition fsqrt :: "real \<Rightarrow> real" where
  "fsqrt x = round64 (sqrt x)"

section \<open>The extractive summarizer\<close>

record SummaryConfig =
  maxSentences :: "int option"
  maxTokens :: "int option"
  temperature :: "real option"
  model :: "string option"
  maxLength :: "int option"

text \<open>
  The word tokenizer, the stemmer and the TF-IDF class come from the package
  \<open>natural\<close>, which is not part of the sources. The tokenizer and the stemmer are
  parameters; \<open>idf n d\<close> is the inverse document frequency, a double, that the package
  gives a term found in \<open>d\<close> of \<open>n\<close> documents.
\<close>

record Natural =
  tokenize :: "string \<Rightarrow> string list option"
  stem :: "string \<Rightarrow> string"
  idf :: "nat \<Rightarrow> nat \<Rightarrow> real"

definition stopWords :: "string list" where
  "stopWords =
    [''the'', ''a'', ''an'', ''and'', ''or'', ''but'', ''in'', ''on'', ''at'', ''to'', ''for'', ''of'',
     ''with'', ''by'', ''is'', ''are'', ''was'', ''were'', ''be'', ''been'', ''have'', ''has'', ''had'',
     ''do'', ''does'', ''did'', ''will'', ''would'', ''could'', ''should'', ''may'', ''might'', ''must'',
     ''can'', ''this'', ''that'', ''these'', ''those'', ''i'', ''me'', ''my'', ''you'', ''your'', ''he'',
     ''him'', ''his'', ''she'', ''her'', ''it'', ''its'', ''we'', ''us'', ''our'', ''they'', ''them'',
     ''their'']"

definition isTerminal :: "char \<Rightarrow> bool" where
  "isTerminal c \<longleftrightarrow> c \<in> set ''.!?''"

definition splitIntoSentences :: "string \<Rightarrow> string list" where
  "splitIntoSentences text =
     filter (\<lambda>sentence. length sentence > 15 \<and> length (split_char (CHR '' '') sentence) > 3)
       (map trim (split_regex isTerminal text))"

text \<open>The term list of one sentence: lower case, tokens, stems, and the filter on
  length and stop words. A tokenizer that returns \<open>null\<close> gives the empty list.\<close>

definition termsOf :: "Natural \<Rightarrow> string \<Rightarrow> string list" where
  "termsOf nat_lib sentence =
     (case tokenize nat_lib (toLowerCase sentence) of
        None \<Rightarrow> []
      | Some tokens \<Rightarrow>
          filter (\<lambda>token. token \<noteq> [] \<and> length token > 2 \<and> token \<notin> set stopWords)
            (map (stem nat_lib) tokens))"

text \<open>
  Modelled from the spec: the class \<open>TfIdf\<close> of \<open>natural\<close> is missing from the
  sources. Every sentence is one document of the corpus; the weight of a term in the
  document at \<open>index\<close> is its term frequency there (its number of occurrences) times its
  inverse document frequency in the corpus of sentences, a product of doubles.
\<close>

definition tf :: "string \<Rightarrow> string list \<Rightarrow> nat" where
  "tf term document = count_list document term"

definition docFrequency :: "string list list \<Rightarrow> string \<Rightarrow> nat" where
  "docFrequency documents term = length (filter (\<lambda>document. term \<in> set document) documents)"

definition tfidf :: "Natural \<Rightarrow> string list list \<Rightarrow> string \<Rightarrow> nat \<Rightarrow> real" where
  "tfidf nat_lib documents term index =
     fmul (real (tf term (documents ! index)))
       (idf nat_lib (length documents) (docFrequency documents term))"

record ScoredSentence =
  sentence :: string
  score :: real
  index :: nat

definition positionBonus :: "nat \<Rightarrow> real" where
  "positionBonus i = (if i = 0 then round64 0.15 else (if i = 1 then round64 0.05 else 0))"

definition lengthPenalty :: "string list \<Rightarrow> real" where
  "lengthPenalty terms = (if length terms > 30 then round64 0.9 else 1.0)"

text \<open>The loop \<open>terms.forEach(term => score += tfidf.tfidf(term, index))\<close>: the weights are
  added to the running score in the order of the terms.\<close>

definition sumTfidf :: "Natural \<Rightarrow> string list list \<Rightarrow> nat \<Rightarrow> real" where
  "sumTfidf nat_lib documents i =
     foldl (\<lambda>total term. fadd total (tfidf nat_lib documents term i)) 0 (documents ! i)"

text \<open>The body of the \<open>map\<close> of \<open>calculateSentenceScores\<close>, for the sentence \<open>s\<close> at
  index \<open>i\<close>.\<close>

definition scoreSentence :: "Natural \<Rightarrow> string list list \<Rightarrow> nat \<Rightarrow> string \<Rightarrow> ScoredSentence" where
  "scoreSentence nat_lib documents i s =
     (let terms = documents ! i;
          total = sumTfidf nat_lib documents i;
          normalizedScore =
            (if length terms > 0
             then fadd (fmul (fdiv total (fsqrt (real (length terms)))) (lengthPenalty terms))
                    (positionBonus i)
             else 0)
      in \<lparr>sentence = s, score = normalizedScore, index = i\<rparr>)"

definition calculateSentenceScores :: "Natural \<Rightarrow> string list \<Rightarrow> ScoredSentence list" where
  "calculateSentenceScores nat_lib sentences =
     (let documents = map (termsOf nat_lib) sentences
      in map (\<lambda>(i, s). scoreSentence nat_lib documents i s) (enumerate 0 sentences))"

text \<open>\<open>Array.prototype.sort\<close> is stable, and so is \<^const>\<open>sort_key\<close>; the comparator
  \<open>b.score - a.score\<close> sorts by descending score, \<open>a.index - b.index\<close> by ascending index.\<close>

definition topSentences :: "Natural \<Rightarrow> int \<Rightarrow> string list \<Rightarrow> ScoredSentence list" where
  "topSentences nat_lib n sentences =
     sort_key index (slice0 n (sort_key (\<lambda>item. - score item) (calculateSentenceScores nat_lib sentences)))"

text \<open>\<open>const { maxSentences = 3 } = config\<close>.\<close>

definition maxSentencesOf :: "SummaryConfig \<Rightarrow> int" where
  "maxSentencesOf config = (case maxSentences config of None \<Rightarrow> 3 | Some m \<Rightarrow> m)"

definition generateSummary :: "Natural \<Rightarrow> string \<Rightarrow> SummaryConfig \<Rightarrow> string" where
  "generateSummary nat_lib content config =
     (let n = maxSentencesOf config;
          sentences = splitIntoSentences content
      in if int (length sentences) \<le> n then join '' '' sentences
         else join '' '' (map sentence (topSentences nat_lib n sentences)))"

section \<open>The provider chain and the validator\<close>

text \<open>The four replacements of \<open>cleanSummary\<close>, in the order of the source.\<close>

text \<open>\<open>replace(/^\[.*?\]\s*/, '')\<close>: an opening bracket at the start, the shortest run
  of characters up to a closing bracket on the same line, and the white space after it.\<close>

definition stripBracketTag :: "string \<Rightarrow> string" where
  "stripBracketTag s =
     (case s of
        [] \<Rightarrow> s
      | c # rest \<Rightarrow>
          if c = CHR ''[''
          then (case dropWhile (\<lambda>x. x \<noteq> CHR '']'' \<and> \<not> isLineTerminator x) rest of
                  [] \<Rightarrow> s
                | d # after \<Rightarrow> if d = CHR '']'' then dropWhile isWhiteSpace after else s)
          else s)"

text \<open>\<open>replace(/^(summary|summary:)\s*/i, '')\<close>: the first alternative always matches
  when the second does, and the white space after it may be empty, so the match is the word
  \<open>summary\<close> and the white space that follows it; a colon stays.\<close>

definition stripSummaryLabel :: "string \<Rightarrow> string" where
  "stripSummaryLabel s =
     (if map foldCaseChar (take 7 s) = ''summary''
      then dropWhile isWhiteSpace (drop 7 s) else s)"

text \<open>\<open>replace(/\s+/g, ' ')\<close>.\<close>

function collapseWhiteSpace :: "string \<Rightarrow> string" where
  "collapseWhiteSpace [] = []"
| "collapseWhiteSpace (c # cs) =
     (if isWhiteSpace c then CHR '' '' # collapseWhiteSpace (dropWhile isWhiteSpace cs)
      else c # collapseWhiteSpace cs)"
  by pat_completeness auto
termination
  by (relation "measure length") (auto simp: length_dropWhile_le less_Suc_eq_le)

definition isQuote :: "char \<Rightarrow> bool" where
  "isQuote c \<longleftrightarrow> c = CHR 0x22 \<or> c = CHR 0x27"

text \<open>\<open>replace(/^["']|["']$/g, '')\<close>: one quote at the start and one at the end.\<close>

definition stripQuotes :: "string \<Rightarrow> string" where
  "stripQuotes s =
     (let s1 = (case s of [] \<Rightarrow> [] | c # cs \<Rightarrow> if isQuote c then cs else s)
      in if s1 \<noteq> [] \<and> isQuote (last s1) then butlast s1 else s1)"

definition cleanSummary :: "string \<Rightarrow> string" where
  "cleanSummary s =
     trim (stripQuotes (collapseWhiteSpace (stripSummaryLabel (stripBracketTag s))))"

text \<open>The validator. The product \<open>originalContent.length * 0.8\<close> is a product of
  doubles.\<close>

definition isValidSummary :: "string \<Rightarrow> string \<Rightarrow> bool" where
  "isValidSummary s originalContent =
     (let cleaned = cleanSummary s
      in cleaned \<noteq> [] \<and>
         length cleaned \<ge> 20 \<and>
         real (length cleaned) < fmul (real (length originalContent)) (round64 0.8) \<and>
         length (split_char (CHR '' '') cleaned) \<ge> 10 \<and>
         \<not> str_includes (toLowerCase cleaned) ''error'' \<and>
         \<not> str_includes (toLowerCase cleaned) ''failed'' \<and>
         \<not> str_includes cleaned ''undefined'')"

text \<open>
  One HTTP call of a provider. The transport is a parameter: \<open>post env r\<close> is the text
  field of the response to the request \<open>r\<close>, or \<open>None\<close> when the call throws (time-out,
  transport error, a status outside 2xx) or the field is absent.
\<close>

datatype request =
    OllamaRequest string string int
  | CohereRequest string string string
  | HuggingFaceRequest string string int int
  | OpenAIRequest string string int real

record Env =
  cohereApiKey :: string
  huggingFaceApiKey :: string
  openAIApiKey :: string
  post :: "request \<Rightarrow> string option"

datatype provider_error = ProviderError string

text \<open>The check every provider makes on the text it received.\<close>

definition acceptResponse :: "string \<Rightarrow> string option \<Rightarrow> provider_error + string" where
  "acceptResponse who response =
     (case response of
        None \<Rightarrow> Inl (ProviderError who)
      | Some raw \<Rightarrow>
          (let s = trim raw
           in if s = [] \<or> length s < 10 then Inl (ProviderError who)
              else Inr (cleanSummary s)))"

definition generateOllamaSummary :: "Env \<Rightarrow> string \<Rightarrow> SummaryConfig \<Rightarrow> provider_error + string" where
  "generateOllamaSummary env content config =
     (let m = (case SummaryConfig.model config of None \<Rightarrow> ''llama2'' | Some x \<Rightarrow> x);
          maxLen = (case maxLength config of None \<Rightarrow> 150 | Some x \<Rightarrow> x);
          prompt = ''Please provide a concise summary of the following text in 2-3 sentences. Focus on the main points and key insights:''
                   @ [CHR 0x0A, CHR 0x0A]
                   @ take 2000 content @ (if length content > 2000 then ''...'' else [])
                   @ [CHR 0x0A, CHR 0x0A] @ ''Summary:''
      in acceptResponse ''Ollama error'' (post env (OllamaRequest m prompt maxLen)))"

definition generateCohereSummary :: "Env \<Rightarrow> string \<Rightarrow> SummaryConfig \<Rightarrow> provider_error + string" where
  "generateCohereSummary env content config =
     (let m = (case SummaryConfig.model config of None \<Rightarrow> ''command-light'' | Some x \<Rightarrow> x);
          maxLen = (case maxLength config of None \<Rightarrow> 150 | Some x \<Rightarrow> x)
      in if cohereApiKey env = [] then Inl (ProviderError ''Cohere API key not available'')
         else acceptResponse ''Cohere error''
                (post env (CohereRequest m (take 100000 content)
                   (if maxLen < 100 then ''short'' else if maxLen < 200 then ''medium'' else ''long''))))"

definition truncateContent :: "string \<Rightarrow> nat \<Rightarrow> string" where
  "truncateContent content maxTok =
     (let estimatedChars = maxTok * 3
      in if length content > estimatedChars then take estimatedChars content @ ''...'' else content)"

text \<open>The \<open>minLength\<close> of the table of HuggingFace models; \<open>max_length\<close> is
  \<open>min(maxLength || 512, 200)\<close>, which is 200 for every entry.\<close>

definition hfMinLength :: "string \<Rightarrow> int" where
  "hfMinLength m =
     (if m = ''sshleifer/distilbart-cnn-12-6'' then 30
      else if m = ''t5-small'' then 20
      else if m = ''facebook/bart-large-cnn'' then 30 else 20)"

fun tryHuggingFaceModels :: "Env \<Rightarrow> string \<Rightarrow> string list \<Rightarrow> string list \<Rightarrow> provider_error + string" where
  "tryHuggingFaceModels env content modelsToTry [] =
     Inl (ProviderError ''All HuggingFace models failed'')"
| "tryHuggingFaceModels env content modelsToTry (currentModel # rest) =
     (case acceptResponse ''HuggingFace error''
             (post env (HuggingFaceRequest currentModel (truncateContent content 1000)
                          200 (min (hfMinLength currentModel) 30))) of
        Inr s \<Rightarrow> Inr s
      | Inl e \<Rightarrow>
          if modelsToTry \<noteq> [] \<and> currentModel = last modelsToTry then Inl e
          else tryHuggingFaceModels env content modelsToTry rest)"

definition generateHuggingFaceSummary :: "Env \<Rightarrow> string \<Rightarrow> SummaryConfig \<Rightarrow> provider_error + string" where
  "generateHuggingFaceSummary env content config =
     (let m = (case SummaryConfig.model config of
                 None \<Rightarrow> ''sshleifer/distilbart-cnn-12-6'' | Some x \<Rightarrow> x);
          freeModels = [''sshleifer/distilbart-cnn-12-6'', ''t5-small''];
          modelsToTry = (if m \<in> set freeModels then m # filter (\<lambda>x. x \<noteq> m) freeModels
                         else freeModels)
      in if huggingFaceApiKey env = []
         then Inl (ProviderError ''HuggingFace API key not available'')
         else tryHuggingFaceModels env content modelsToTry modelsToTry)"

definition generateOpenAISummary :: "Env \<Rightarrow> string \<Rightarrow> SummaryConfig \<Rightarrow> provider_error + string" where
  "generateOpenAISummary env content config =
     (let maxTok = (case maxTokens config of None \<Rightarrow> 150 | Some x \<Rightarrow> x);
          temp = (case temperature config of None \<Rightarrow> round64 0.3 | Some x \<Rightarrow> x);
          m = (case SummaryConfig.model config of None \<Rightarrow> ''gpt-3.5-turbo'' | Some x \<Rightarrow> x)
      in if openAIApiKey env = [] then Inl (ProviderError ''OpenAI API key not available'')
         else acceptResponse ''OpenAI error''
                (post env (OpenAIRequest m
                   (''Summarize the following text in 2-3 concise sentences:''
                      @ [CHR 0x0A, CHR 0x0A] @ take 3000 content) maxTok temp)))"

datatype summaryMethod = AI | Extractive

text \<open>The result of the chain; \<open>summary_method\<close> is the field \<open>method\<close> of the source.\<close>

record BestSummary =
  summary :: string
  provider :: string
  model :: string
  summary_method :: summaryMethod

text \<open>What a run does besides returning: the providers it invoked and the candidates it
  handed to the validator, in order.\<close>

datatype event = ProviderCalled string | ValidatorCalled string

text \<open>The loop over the providers: the first candidate that the validator accepts ends
  it; a thrown error and a rejected candidate both move on to the next provider.\<close>

fun tryProviders ::
  "string \<Rightarrow> SummaryConfig \<Rightarrow> (string \<times> (unit \<Rightarrow> provider_error + string)) list
     \<Rightarrow> event list \<Rightarrow> BestSummary option \<times> event list" where
  "tryProviders content config [] trace = (None, trace)"
| "tryProviders content config ((name, run) # rest) trace =
     (case run () of
        Inl e \<Rightarrow> tryProviders content config rest (trace @ [ProviderCalled name])
      | Inr s \<Rightarrow>
          if isValidSummary s content
          then (Some \<lparr>summary = s, provider = name,
                      model = (case SummaryConfig.model config of
                                 None \<Rightarrow> ''default''
                               | Some m \<Rightarrow> if m = [] then ''default'' else m), summary_method = AI\<rparr>,
                trace @ [ProviderCalled name, ValidatorCalled s])
          else tryProviders content config rest (trace @ [ProviderCalled name, ValidatorCalled s]))"

definition providers ::
  "Env \<Rightarrow> string \<Rightarrow> SummaryConfig \<Rightarrow> (string \<times> (unit \<Rightarrow> provider_error + string)) list" where
  "providers env content config =
     [(''ollama'', \<lambda>_. generateOllamaSummary env content
                          (config\<lparr>SummaryConfig.model := Some ''llama2''\<rparr>)),
      (''cohere'', \<lambda>_. generateCohereSummary env content config),
      (''huggingface'', \<lambda>_. generateHuggingFaceSummary env content config),
      (''openai'', \<lambda>_. generateOpenAISummary env content config)]"

definition generateBestSummary ::
  "Env \<Rightarrow> Natural \<Rightarrow> string \<Rightarrow> SummaryConfig \<Rightarrow> BestSummary \<times> event list" where
  "generateBestSummary env nat_lib content config =
     (case tryProviders content config (providers env content config) [] of
        (Some result, trace) \<Rightarrow> (result, trace)
      | (None, trace) \<Rightarrow>
          (\<lparr>summary = generateSummary nat_lib content config, provider = ''extractive'',
            model = ''tf-idf'', summary_method = Extractive\<rparr>, trace))"

record ArticleSummary = BestSummary +
  generated :: bool

definition defaultConfig :: SummaryConfig where
  "defaultConfig = \<lparr>maxSentences = None, maxTokens = None, temperature = None,
                    SummaryConfig.model = None, maxLength = None\<rparr>"

definition generateSummaryForArticle ::
  "Env \<Rightarrow> Natural \<Rightarrow> string \<Rightarrow> string option \<Rightarrow> ArticleSummary \<times> event list" where
  "generateSummaryForArticle env nat_lib content existingSummary =
     (if existingSummary \<noteq> None \<and> the existingSummary \<noteq> [] \<and> trim (the existingSummary) \<noteq> []
      then (\<lparr>summary = trim (the existingSummary), provider = ''user-provided'',
             model = ''none'', summary_method = Extractive, generated = False\<rparr>, [])
      else (case generateBestSummary env nat_lib content (defaultConfig\<lparr>maxSentences := Some 3\<rparr>) of
              (result, trace) \<Rightarrow>
                (\<lparr>summary = summary result, provider = provider result,
                  model = BestSummary.model result, summary_method = summary_method result,
                  generated = True\<rparr>, trace)))"

section \<open>The recommendation service\<close>

text \<open>
  The store holds the three collections, each in the order in which a query without a sort
  returns its documents. Object identifiers are natural numbers, instants are milliseconds
  since the epoch, and the scores are doubles.
\<close>

datatype interactionType = View | Like | Share | Comment

record Interaction =
  userId :: nat
  articleId :: nat
  interactionType :: interactionType
  createdAt :: int

record Article =
  article_id :: nat
  author :: string
  tags :: "string list"
  createdAt :: int

record User =
  user_id :: nat
  username :: string
  interests :: "string list"

record Store =
  users :: "User list"
  articles :: "Article list"
  interactions :: "Interaction list"

record RecommendationScore =
  article :: Article
  score :: real
  reasons :: "string list"

datatype service_error = UserNotFound

text \<open>\<open>limit(n)\<close> of a query: zero means no limit.\<close>

definition queryLimit :: "nat \<Rightarrow> 'a list \<Rightarrow> 'a list" where
  "queryLimit n xs = (if n = 0 then xs else take n xs)"

definition matchesTag :: "string \<Rightarrow> string \<Rightarrow> bool" where
  "matchesTag interest tag \<longleftrightarrow> str_includes tag interest \<or> str_includes interest tag"

definition getMatchingInterests :: "string list \<Rightarrow> string list \<Rightarrow> string list" where
  "getMatchingInterests userInterests articleTags =
     filter (\<lambda>interest. \<exists>tag \<in> set articleTags. matchesTag interest tag) userInterests"

definition calculateInterestScore :: "string list \<Rightarrow> string list \<Rightarrow> real" where
  "calculateInterestScore userInterests articleTags =
     (if length userInterests = 0 \<or> length articleTags = 0 then 0
      else fdiv (real (length (filter (\<lambda>interest. \<exists>tag \<in> set articleTags. matchesTag interest tag)
                                 userInterests)))
             (real (length userInterests)))"

text \<open>The aggregation \<open>$match { articleId }\<close>, \<open>$group\<close> by interaction type with a
  count: one pair for every type that occurs.\<close>

definition countByType :: "Interaction list \<Rightarrow> (interactionType \<times> nat) list" where
  "countByType xs =
     map (\<lambda>t. (t, length (filter (\<lambda>i. interactionType i = t) xs)))
       (remdups (map interactionType xs))"

fun weight :: "interactionType \<Rightarrow> nat" where
  "weight View = 1"
| "weight Like = 3"
| "weight Share = 5"
| "weight Comment = 4"

text \<open>The loop over the counts: \<open>totalScore += count * weights[type]\<close>, on integers.\<close>

definition weightedTotal :: "Store \<Rightarrow> nat \<Rightarrow> nat" where
  "weightedTotal store aid =
     (let interactionCounts = countByType (filter (\<lambda>i. articleId i = aid) (interactions store))
      in foldl (\<lambda>total (t, n). total + n * weight t) 0 interactionCounts)"

definition calculatePopularityScore :: "Store \<Rightarrow> nat \<Rightarrow> real" where
  "calculatePopularityScore store aid = min (fdiv (real (weightedTotal store aid)) 100) 1"

definition calculateFreshnessScore :: "int \<Rightarrow> int \<Rightarrow> real" where
  "calculateFreshnessScore now created =
     (let ageInDays = fdiv (real_of_int (now - created)) (1000 * 60 * 60 * 24)
      in if ageInDays \<le> 1 then 1.0
         else if ageInDays \<le> 7 then round64 0.9
         else if ageInDays \<le> 30 then round64 0.7
         else if ageInDays \<le> 90 then round64 0.4
         else round64 0.2)"

definition calculateAuthorScore :: "Store \<Rightarrow> string \<Rightarrow> real" where
  "calculateAuthorScore store a =
     (let authorArticles = queryLimit 10 (filter (\<lambda>x. author x = a) (articles store))
      in if length authorArticles = 0 then 0.5
         else (let scores = map (\<lambda>x. calculatePopularityScore store (article_id x)) authorArticles
               in fdiv (foldl (\<lambda>total x. fadd total x) 0 scores) (real (length scores))))"

definition calculateRecommendationScore :: "int \<Rightarrow> Store \<Rightarrow> User \<Rightarrow> Article \<Rightarrow> RecommendationScore" where
  "calculateRecommendationScore now store user a =
     (let interestScore = calculateInterestScore (interests user) (tags a);
          s1 = fadd 0 (fmul interestScore (round64 0.4));
          r1 = (if interestScore > 0
                then [''Matches your interests: ''
                        @ join '', '' (getMatchingInterests (interests user) (tags a))]
                else []);
          popularityScore = calculatePopularityScore store (article_id a);
          s2 = fadd s1 (fmul popularityScore (round64 0.3));
          r2 = (if popularityScore > round64 0.7 then r1 @ [''Popular among users''] else r1);
          freshnessScore = calculateFreshnessScore now (Article.createdAt a);
          s3 = fadd s2 (fmul freshnessScore (round64 0.2));
          r3 = (if freshnessScore > round64 0.8 then r2 @ [''Recent content''] else r2);
          authorScore = calculateAuthorScore store (author a);
          s4 = fadd s3 (fmul authorScore (round64 0.1));
          r4 = (if authorScore > round64 0.7 then r3 @ [''From popular author''] else r3);
          r5 = (if length r4 = 0 then r4 @ [''General recommendation''] else r4)
      in \<lparr>article = a, score = min s4 1, reasons = r5\<rparr>)"

definition getRecommendations ::
  "int \<Rightarrow> Store \<Rightarrow> nat \<Rightarrow> nat \<Rightarrow> service_error + RecommendationScore list" where
  "getRecommendations now store uid limit =
     (case find (\<lambda>u. user_id u = uid) (users store) of
        None \<Rightarrow> Inl UserNotFound
      | Some user \<Rightarrow>
          (let interactedArticleIds = map articleId (filter (\<lambda>i. userId i = uid) (interactions store));
               candidateArticles =
                 queryLimit (limit * 2)
                   (filter (\<lambda>a. article_id a \<notin> set interactedArticleIds) (articles store))
           in if length candidateArticles = 0 then Inr []
              else Inr (take limit
                     (sort_key (\<lambda>r. - RecommendationScore.score r)
                        (map (calculateRecommendationScore now store user) candidateArticles)))))"

text \<open>\<open>Math.round(x * 100) / 100\<close>: the product and the quotient are operations on
  doubles; \<open>Math.round\<close> gives the nearest integer and rounds a half upwards.\<close>

definition round2 :: "real \<Rightarrow> real" where
  "round2 x = fdiv (real_of_int \<lfloor>fmul x 100 + 1 / 2\<rfloor>) 100"

text \<open>The controller: the recommendations of the service with their scores rounded.\<close>

definition getRecommendationsResponse ::
  "int \<Rightarrow> Store \<Rightarrow> nat \<Rightarrow> nat \<Rightarrow> service_error + RecommendationScore list" where
  "getRecommendationsResponse now store uid limit =
     (case getRecommendations now store uid limit of
        Inl e \<Rightarrow> Inl e
      | Inr recommendations \<Rightarrow>
          Inr (map (\<lambda>r. \<lparr>article = article r, score = round2 (RecommendationScore.score r),
                          reasons = reasons r\<rparr>) recommendations))"

section \<open>Trending articles\<close>

record TrendingGroup =
  group_id :: nat
  interactionCount :: nat
  likeCount :: nat

text \<open>\<open>$group\<close> by article: one group for every article that occurs.\<close>

definition groupByArticle :: "Interaction list \<Rightarrow> (nat \<times> Interaction list) list" where
  "groupByArticle xs =
     map (\<lambda>a. (a, filter (\<lambda>i. articleId i = a) xs)) (remdups (map articleId xs))"

definition countType :: "interactionType \<Rightarrow> Interaction list \<Rightarrow> nat" where
  "countType t xs = length (filter (\<lambda>i. interactionType i = t) xs)"

text \<open>\<open>RecommendationService.getTrendingArticles\<close>: the pipeline sorts by the number of
  likes, then by the number of interactions, both descending; the articles are then fetched
  with \<open>$in\<close>, in the order of the collection.\<close>

definition getTrendingArticles :: "int \<Rightarrow> Store \<Rightarrow> nat \<Rightarrow> Article list" where
  "getTrendingArticles now store limit =
     (let oneDayAgo = now - 24 * 60 * 60 * 1000;
          matched = filter (\<lambda>i. Interaction.createdAt i \<ge> oneDayAgo) (interactions store);
          groups = map (\<lambda>(a, xs). \<lparr>group_id = a, interactionCount = length xs,
                                     likeCount = countType Like xs\<rparr>) (groupByArticle matched);
          trending = take limit
                       (sort_key (\<lambda>g. (- int (likeCount g), - int (interactionCount g))) groups);
          articleIds = map group_id trending
      in filter (\<lambda>a. article_id a \<in> set articleIds) (articles store))"

record TrendingStats =
  stats_id :: nat
  totalInteractions :: nat
  likes :: nat
  shares :: nat
  comments :: nat
  views :: nat
  engagementScore :: nat

text \<open>The static method \<open>getTrendingArticles\<close> of the interaction model: the groups carry
  the weighted engagement and are sorted by it, then by the number of interactions; every
  group is joined with its article (\<open>$lookup\<close>, \<open>$unwind\<close>).\<close>

definition statics_getTrendingArticles :: "int \<Rightarrow> Store \<Rightarrow> int \<Rightarrow> nat \<Rightarrow> (Article \<times> TrendingStats) list" where
  "statics_getTrendingArticles now store hours limit =
     (let timeAgo = now - hours * 60 * 60 * 1000;
          matched = filter (\<lambda>i. Interaction.createdAt i \<ge> timeAgo) (interactions store);
          groups = map (\<lambda>(a, xs).
                     (let l = countType Like xs; s = countType Share xs;
                          c = countType Comment xs; v = countType View xs
                      in \<lparr>stats_id = a, totalInteractions = length xs, likes = l, shares = s,
                          comments = c, views = v, engagementScore = v + l * 3 + s * 5 + c * 4\<rparr>))
                     (groupByArticle matched);
          ordered = sort_key (\<lambda>g. (- int (engagementScore g), - int (totalInteractions g))) groups;
          limited = take limit ordered
      in concat (map (\<lambda>g. map (\<lambda>a. (a, g))
                             (filter (\<lambda>a. article_id a = stats_id g) (articles store))) limited))"

section \<open>Notions of the specification\<close>

text \<open>The number of white-space-delimited words of a string: the positions where a
  character that is not white space follows white space or starts the string.\<close>

fun wordStarts :: "bool \<Rightarrow> string \<Rightarrow> nat" where
  "wordStarts prevWs [] = 0"
| "wordStarts prevWs (c # cs) =
     (if isWhiteSpace c then wordStarts True cs
      else (if prevWs then 1 else 0) + wordStarts False cs)"

definition spec_word_count :: "string \<Rightarrow> nat" where
  "spec_word_count s = wordStarts True s"

text \<open>A string whose only white space is single spaces: \<open>prevWs\<close> tells whether the
  character before the string is white space.\<close>

fun singleSpaced :: "bool \<Rightarrow> string \<Rightarrow> bool" where
  "singleSpaced prevWs [] = True"
| "singleSpaced prevWs (c # cs) =
     (if isWhiteSpace c then c = CHR '' '' \<and> \<not> prevWs \<and> singleSpaced True cs
      else singleSpaced False cs)"

text \<open>The five reasons for which the specification has the validator reject a cleaned
  candidate.\<close>

definition spec_rejects :: "string \<Rightarrow> string \<Rightarrow> bool" where
  "spec_rejects candidate source \<longleftrightarrow>
     length candidate < 20 \<or>
     real (length candidate) \<ge> 0.8 * real (length source) \<or>
     spec_word_count candidate < 10 \<or>
     str_includes (toLowerCase candidate) ''error'' \<or>
     str_includes (toLowerCase candidate) ''failed'' \<or>
     str_includes candidate ''undefined''"

text \<open>The noise filter as the specification words it: a candidate is discarded when it is
  shorter than 15 characters or has 3 or fewer white-space-delimited words.\<close>

definition spec_discards :: "string \<Rightarrow> bool" where
  "spec_discards candidate \<longleftrightarrow> length candidate < 15 \<or> spec_word_count candidate \<le> 3"

text \<open>The indices of the sentences that the summarizer selects, in ascending order.\<close>

definition selectedIndices :: "Natural \<Rightarrow> int \<Rightarrow> string list \<Rightarrow> nat list" where
  "selectedIndices nat_lib n sentences =
     sort (map index (slice0 n (sort_key (\<lambda>item. - ScoredSentence.score item)
                                  (calculateSentenceScores nat_lib sentences))))"

text \<open>Every attempt of the chain throws or yields a candidate that the validator rejects.\<close>

definition attemptFails :: "string \<Rightarrow> (string \<times> (unit \<Rightarrow> provider_error + string)) \<Rightarrow> bool" where
  "attemptFails content p =
     (case snd p () of Inl e \<Rightarrow> True | Inr s \<Rightarrow> \<not> isValidSummary s content)"

definition allAttemptsFail :: "Env \<Rightarrow> string \<Rightarrow> SummaryConfig \<Rightarrow> bool" where
  "allAttemptsFail env content config =
     list_all (attemptFails content) (providers env content config)"

text \<open>The signals, the combined score and its rounding as the specification words them,
  in exact arithmetic: the popularity is the weighted number of interactions over 100, at
  most 1; the interest is the share of the interests that match a tag; the freshness is a
  step function of the age in days.\<close>

definition spec_popularityScore :: "Store \<Rightarrow> nat \<Rightarrow> real" where
  "spec_popularityScore store aid =
     min 1 (real (sum_list (map (\<lambda>i. weight (interactionType i))
                             (filter (\<lambda>i. articleId i = aid) (interactions store)))) / 100)"

definition spec_interestScore :: "string list \<Rightarrow> string list \<Rightarrow> real" where
  "spec_interestScore userInterests articleTags =
     (if userInterests = [] \<or> articleTags = [] then 0
      else real (length (getMatchingInterests userInterests articleTags))
           / real (length userInterests))"

definition spec_freshnessScore :: "int \<Rightarrow> int \<Rightarrow> real" where
  "spec_freshnessScore now created =
     (let days = real_of_int (now - created) / 86400000
      in if days \<le> 1 then 1 else if days \<le> 7 then 9 / 10 else if days \<le> 30 then 7 / 10
         else if days \<le> 90 then 4 / 10 else 2 / 10)"

text \<open>The author-reputation signal as the specification words it: the average popularity
  of the author's 10 most recent articles, and one half when the author has no article
  besides the candidate.\<close>

definition spec_authorScore :: "Store \<Rightarrow> Article \<Rightarrow> real" where
  "spec_authorScore store candidate =
     (let byAuthor = filter (\<lambda>x. author x = author candidate) (articles store);
          others = filter (\<lambda>x. article_id x \<noteq> article_id candidate) byAuthor;
          recent = take 10 (sort_key (\<lambda>x. - Article.createdAt x) byAuthor)
      in if others = [] then 0.5
         else sum_list (map (\<lambda>x. spec_popularityScore store (article_id x)) recent)
              / real (length recent))"

definition spec_recommendationScore :: "int \<Rightarrow> Store \<Rightarrow> User \<Rightarrow> Article \<Rightarrow> real" where
  "spec_recommendationScore now store user candidate =
     min 1 (0.4 * spec_interestScore (interests user) (tags candidate)
            + 0.3 * spec_popularityScore store (article_id candidate)
            + 0.2 * spec_freshnessScore now (Article.createdAt candidate)
            + 0.1 * spec_authorScore store candidate)"

text \<open>A number rounded to two decimal places, a half going upwards.\<close>

definition spec_round2 :: "real \<Rightarrow> real" where
  "spec_round2 x = real_of_int \<lfloor>x * 100 + 1 / 2\<rfloor> / 100"

section \<open>Sample inputs\<close>

text \<open>An instance of the library: tokens are the pieces between spaces, stems are the
  tokens themselves, and the inverse document frequency is a ratio.\<close>

definition sampleNatural :: Natural where
  "sampleNatural =
     \<lparr>tokenize = (\<lambda>s. Some (filter (\<lambda>w. w \<noteq> []) (split_char (CHR '' '') s))),
      stem = (\<lambda>w. w),
      idf = (\<lambda>n d. fadd 1 (fdiv (real n) (1 + real d)))\<rparr>"

text \<open>No credentials, and every call fails.\<close>

definition offlineEnv :: Env where
  "offlineEnv = \<lparr>cohereApiKey = [], huggingFaceApiKey = [], openAIApiKey = [],
                  post = (\<lambda>r. None)\<rparr>"

text \<open>A provider that answers every request with a text about its own failure.\<close>

definition failureText :: string where
  "failureText = ''An error occurred while the model was loading, please retry later''"

definition rejectedEnv :: Env where
  "rejectedEnv = \<lparr>cohereApiKey = ''key'', huggingFaceApiKey = ''key'', openAIApiKey = ''key'',
                   post = (\<lambda>r. Some failureText)\<rparr>"

definition sampleText :: string where
  "sampleText = ''The cat sat on the warm mat. A dog ran over the green hill! Birds sing in the tall old trees? We do it my way.''"

definition sampleSentences :: "string list" where
  "sampleSentences = [''the cat sat on the warm mat'', ''I am on it or is he at it'',
                      ''The cat sat on the warm mat'']"



definition headlines :: string where
  "headlines = ''Breaking news. Markets fell. Analysts shrugged. More soon. Stay tuned.''"

text \<open>A reader interested in \<open>ai\<close>, and one article of two days ago with ten likes and
  four shares.\<close>

definition sampleNow :: int where
  "sampleNow = 1000000000"

definition sampleUser :: User where
  "sampleUser = \<lparr>user_id = 1, username = ''ann'', interests = [''ai'']\<rparr>"

definition sampleArticle :: Article where
  "sampleArticle = \<lparr>article_id = 10, author = ''bob'', tags = [''ai'', ''technology''],
                     createdAt = 1000000000 - 172800000\<rparr>"

definition sampleStore :: Store where
  "sampleStore =
     \<lparr>users = [sampleUser], articles = [sampleArticle],
      interactions =
        map (\<lambda>u. \<lparr>userId = u, articleId = 10, interactionType = Like, createdAt = 999999000\<rparr>)
          [2..<12]
        @ map (\<lambda>u. \<lparr>userId = u, articleId = 10, interactionType = Share, createdAt = 999999000\<rparr>)
            [2..<6]\<rparr>"

text \<open>A reader without interests, a candidate of ten days ago without interactions, and
  another article by the same author that the reader and \<open>n - 1\<close> others have shared.\<close>

definition quietUser :: User where
  "quietUser = \<lparr>user_id = 1, username = ''cat'', interests = []\<rparr>"

definition candidateArticle :: Article where
  "candidateArticle = \<lparr>article_id = 20, author = ''bob'', tags = [''ai''],
                        createdAt = 1000000000 - 864000000\<rparr>"

definition sharedByMany :: Article where
  "sharedByMany = \<lparr>article_id = 21, author = ''bob'', tags = [''ai''],
                    createdAt = 1000000000 - 864000000\<rparr>"

definition sharesStore :: "nat \<Rightarrow> Store" where
  "sharesStore n =
     \<lparr>users = [quietUser], articles = [candidateArticle, sharedByMany],
      interactions =
        map (\<lambda>u. \<lparr>userId = u, articleId = 21, interactionType = Share, createdAt = 999999000\<rparr>)
          [1..<Suc n]\<rparr>"

text \<open>An author whose only article is the candidate, without any interaction.\<close>

definition loneArticle :: Article where
  "loneArticle = \<lparr>article_id = 1, author = ''eve'', tags = [], createdAt = 0\<rparr>"

definition loneStore :: Store where
  "loneStore = \<lparr>users = [], articles = [loneArticle], interactions = []\<rparr>"

text \<open>An author with eleven articles, stored from the oldest to the newest; only the
  newest has an interaction, one like.\<close>

definition danArticle :: "nat \<Rightarrow> Article" where
  "danArticle k = \<lparr>article_id = k, author = ''dan'', tags = [], createdAt = int k\<rparr>"

definition danStore :: Store where
  "danStore =
     \<lparr>users = [], articles = map danArticle [1..<12],
      interactions = [\<lparr>userId = 1, articleId = 11, interactionType = Like, createdAt = 20\<rparr>]\<rparr>"

text \<open>Two articles in the last day: the first has one like, the second one share and one
  comment.\<close>

definition likedArticle :: Article where
  "likedArticle = \<lparr>article_id = 1, author = ''ann'', tags = [], createdAt = 0\<rparr>"

definition sharedArticle :: Article where
  "sharedArticle = \<lparr>article_id = 2, author = ''bob'', tags = [], createdAt = 0\<rparr>"

definition trendStore :: Store where
  "trendStore =
     \<lparr>users = [], articles = [likedArticle, sharedArticle],
      interactions =
        [\<lparr>userId = 1, articleId = 1, interactionType = Like, createdAt = 999999000\<rparr>,
         \<lparr>userId = 1, articleId = 2, interactionType = Share, createdAt = 999999000\<rparr>,
         \<lparr>userId = 2, articleId = 2, interactionType = Comment, createdAt = 999999000\<rparr>]\<rparr>"

section \<open>Facts about the string operations\<close>

lemma split_char_ne: "split_char sep s \<noteq> []"
  by (induction s) (auto simp: Let_def)

lemma length_split_char: "length (split_char sep s) = Suc (count_list s sep)"
  by (induction s) (auto simp: Let_def split_char_ne)

lemma isWhiteSpace_space: "isWhiteSpace (CHR '' '')"
  by (simp add: isWhiteSpace_def)

lemma singleSpaced_mono: "singleSpaced True s \<Longrightarrow> singleSpaced False s"
  by (cases s) (auto split: if_splits)

lemma singleSpaced_any: "singleSpaced b s \<Longrightarrow> singleSpaced False s"
  by (cases b) (auto intro: singleSpaced_mono)

lemma singleSpaced_take: "singleSpaced b s \<Longrightarrow> singleSpaced b (take n s)"
proof (induction s arbitrary: b n)
  case Nil
  then show ?case by simp
next
  case (Cons c cs)
  then show ?case by (cases n) (auto split: if_splits)
qed

lemma singleSpaced_drop: "singleSpaced b s \<Longrightarrow> singleSpaced False (drop n s)"
proof (induction s arbitrary: b n)
  case Nil
  then show ?case by simp
next
  case (Cons c cs)
  show ?case
  proof (cases n)
    case 0
    with Cons.prems show ?thesis by (simp add: singleSpaced_any)
  next
    case (Suc m)
    with Cons show ?thesis by (auto split: if_splits)
  qed
qed

lemma singleSpaced_dropWhile: "singleSpaced b s \<Longrightarrow> singleSpaced False (dropWhile P s)"
  by (simp add: dropWhile_eq_drop singleSpaced_drop)

lemma rev_dropWhile_rev: "rev (dropWhile P (rev s)) = take (length s - length (takeWhile P (rev s))) s"
  by (simp add: dropWhile_eq_drop rev_drop)

lemma singleSpaced_trim: "singleSpaced b s \<Longrightarrow> singleSpaced False (trim s)"
  unfolding trim_def rev_dropWhile_rev
  by (intro singleSpaced_take singleSpaced_dropWhile)

lemma singleSpaced_butlast: "singleSpaced b s \<Longrightarrow> singleSpaced b (butlast s)"
  by (simp add: butlast_conv_take singleSpaced_take)

lemma singleSpaced_stripQuotes: "singleSpaced False s \<Longrightarrow> singleSpaced False (stripQuotes s)"
proof -
  assume a: "singleSpaced False s"
  let ?s1 = "case s of [] \<Rightarrow> [] | c # cs \<Rightarrow> if isQuote c then cs else s"
  have "?s1 = s \<or> ?s1 = drop 1 s" by (cases s) auto
  then have "singleSpaced False ?s1" using a singleSpaced_drop[OF a, of 1] by auto
  then show ?thesis by (simp add: stripQuotes_def Let_def singleSpaced_butlast)
qed

lemma singleSpaced_collapse: "singleSpaced False (collapseWhiteSpace s)"
proof (induction s rule: collapseWhiteSpace.induct)
  case 1
  then show ?case by simp
next
  case (2 c cs)
  show ?case
  proof (cases "isWhiteSpace c")
    case True
    let ?r = "dropWhile isWhiteSpace cs"
    have ih: "singleSpaced False (collapseWhiteSpace ?r)" using 2(1)[OF True] .
    have "singleSpaced True (collapseWhiteSpace ?r)"
    proof (cases ?r)
      case Nil
      show ?thesis by (simp only: Nil collapseWhiteSpace.simps singleSpaced.simps)
    next
      case (Cons d ds)
      then have "\<not> isWhiteSpace d" by (metis hd_dropWhile list.sel(1) list.distinct(1))
      with ih Cons show ?thesis by simp
    qed
    with True show ?thesis by (simp add: isWhiteSpace_space)
  next
    case False
    with 2(2) show ?thesis by simp
  qed
qed

lemma singleSpaced_cleanSummary: "singleSpaced False (cleanSummary s)"
  unfolding cleanSummary_def
  by (rule singleSpaced_trim[OF singleSpaced_stripQuotes[OF singleSpaced_collapse]])

lemma trim_hd: "trim s \<noteq> [] \<Longrightarrow> \<not> isWhiteSpace (hd (trim s))"
proof -
  assume a: "trim s \<noteq> []"
  let ?t = "dropWhile isWhiteSpace s"
  have t: "trim s = take (length ?t - length (takeWhile isWhiteSpace (rev ?t))) ?t"
    by (simp add: trim_def rev_dropWhile_rev)
  with a have "?t \<noteq> []" by auto
  then have "\<not> isWhiteSpace (hd ?t)" by (rule hd_dropWhile)
  moreover have "hd (trim s) = hd ?t" using a t by (metis hd_take take_eq_Nil not_gr_zero)
  ultimately show ?thesis by simp
qed

lemma trim_last: "trim s \<noteq> [] \<Longrightarrow> \<not> isWhiteSpace (last (trim s))"
proof -
  assume a: "trim s \<noteq> []"
  let ?u = "dropWhile isWhiteSpace (rev (dropWhile isWhiteSpace s))"
  from a have "?u \<noteq> []" by (simp add: trim_def)
  then have "\<not> isWhiteSpace (hd ?u)" by (rule hd_dropWhile)
  moreover have "last (trim s) = hd ?u" using \<open>?u \<noteq> []\<close> by (simp add: trim_def last_rev)
  ultimately show ?thesis by simp
qed

lemma wordStarts_singleSpaced:
  "singleSpaced b s \<Longrightarrow> (s \<noteq> [] \<Longrightarrow> \<not> isWhiteSpace (last s)) \<Longrightarrow>
   wordStarts p s = count_list s (CHR '' '') + (if p \<and> s \<noteq> [] \<and> \<not> isWhiteSpace (hd s) then 1 else 0)"
proof (induction s arbitrary: b p)
  case Nil
  then show ?case by simp
next
  case (Cons c cs)
  show ?case
  proof (cases "isWhiteSpace c")
    case True
    with Cons.prems have c: "c = CHR '' ''" and ok: "singleSpaced True cs" by auto
    from True Cons.prems(2) have ne: "cs \<noteq> []" by auto
    with Cons.prems(2) have l: "cs \<noteq> [] \<Longrightarrow> \<not> isWhiteSpace (last cs)" by auto
    from ne ok have h: "\<not> isWhiteSpace (hd cs)" by (cases cs) (auto split: if_splits)
    from Cons.IH[OF ok l, of True] ne h True c show ?thesis by simp
  next
    case False
    with Cons.prems have ok: "singleSpaced False cs" by auto
    from Cons.prems(2) have l: "cs \<noteq> [] \<Longrightarrow> \<not> isWhiteSpace (last cs)" by auto
    from False have c: "c \<noteq> CHR '' ''" using isWhiteSpace_space by auto
    from Cons.IH[OF ok l, of False] False c show ?thesis by simp
  qed
qed

lemma word_count_cleanSummary:
  "spec_word_count (cleanSummary s) =
     (if cleanSummary s = [] then 0 else length (split_char (CHR '' '') (cleanSummary s)))"
proof -
  let ?c = "cleanSummary s"
  have tr: "?c = trim (stripQuotes (collapseWhiteSpace (stripSummaryLabel (stripBracketTag s))))"
    by (simp add: cleanSummary_def)
  have l: "?c \<noteq> [] \<Longrightarrow> \<not> isWhiteSpace (last ?c)" unfolding tr by (rule trim_last)
  have h: "?c \<noteq> [] \<Longrightarrow> \<not> isWhiteSpace (hd ?c)" unfolding tr by (rule trim_hd)
  show ?thesis
    unfolding spec_word_count_def
    using wordStarts_singleSpaced[where p = True, OF singleSpaced_cleanSummary l] h
    by (simp add: length_split_char)
qed

lemma isPrefix_iff: "isPrefix p s \<longleftrightarrow> (\<exists>ss. s = p @ ss)"
  by (induction p s rule: isPrefix.induct) auto

lemma str_includes_iff: "str_includes s sub \<longleftrightarrow> (\<exists>ps ss. s = ps @ sub @ ss)"
proof (induction s)
  case Nil
  then show ?case by auto
next
  case (Cons c cs)
  have "(\<exists>ps ss. c # cs = ps @ sub @ ss) \<longleftrightarrow>
        (\<exists>ss. c # cs = sub @ ss) \<or> (\<exists>ps ss. cs = ps @ sub @ ss)"
  proof
    assume "\<exists>ps ss. c # cs = ps @ sub @ ss"
    then obtain ps ss where e: "c # cs = ps @ sub @ ss" by blast
    show "(\<exists>ss. c # cs = sub @ ss) \<or> (\<exists>ps ss. cs = ps @ sub @ ss)"
    proof (cases ps)
      case Nil
      with e show ?thesis by auto
    next
      case (Cons p ps')
      with e have "cs = ps' @ sub @ ss" by simp
      then show ?thesis by blast
    qed
  next
    assume "(\<exists>ss. c # cs = sub @ ss) \<or> (\<exists>ps ss. cs = ps @ sub @ ss)"
    then show "\<exists>ps ss. c # cs = ps @ sub @ ss"
    proof
      assume "\<exists>ss. c # cs = sub @ ss"
      then obtain ss where "c # cs = [] @ sub @ ss" by auto
      then show ?thesis by blast
    next
      assume "\<exists>ps ss. cs = ps @ sub @ ss"
      then obtain ps ss where "cs = ps @ sub @ ss" by blast
      then have "c # cs = (c # ps) @ sub @ ss" by simp
      then show ?thesis by blast
    qed
  qed
  with Cons show ?case by (simp add: isPrefix_iff)
qed

lemma split_regex_ne: "split_regex p s \<noteq> []"
  by (induction p s rule: split_regex.induct) (auto simp: Let_def)

lemma concat_split_regex: "concat (split_regex p s) = filter (\<lambda>c. \<not> p c) s"
proof (induction p s rule: split_regex.induct)
  case (1 p)
  then show ?case by simp
next
  case (2 p c cs)
  show ?case
  proof (cases "p c")
    case True
    have "filter (\<lambda>c. \<not> p c) (dropWhile p cs) = filter (\<lambda>c. \<not> p c) cs"
      by (induction cs) auto
    with True 2 show ?thesis by simp
  next
    case False
    have "concat ((c # hd r) # tl r) = c # concat r" if "r \<noteq> []" for r :: "string list"
      using that by (cases r) auto
    with False 2 show ?thesis by (simp add: Let_def split_regex_ne)
  qed
qed

section \<open>Facts about the rounding to doubles\<close>

lemma exponent_bounds:
  assumes "x \<noteq> 0"
  shows "2 powi (exponent x) \<le> \<bar>x\<bar> \<and> \<bar>x\<bar> < 2 powi (exponent x + 1)"
proof (cases "1 \<le> \<bar>x\<bar>")
  case True
  define n where "n = nat \<lfloor>\<bar>x\<bar>\<rfloor>"
  have n1: "0 < n" using True by (simp add: n_def)
  have nx: "real n \<le> \<bar>x\<bar>" "\<bar>x\<bar> < real n + 1" unfolding n_def using True by (simp_all; linarith)+
  from floorlog_bounds[OF n1, of 2]
  have b: "2 ^ (floorlog 2 n - 1) \<le> n" "n < 2 ^ floorlog 2 n" by simp_all
  have fl: "0 < floorlog 2 n" using n1 by (simp add: floorlog_def)
  have e: "exponent x = int (floorlog 2 n - 1)" using True fl by (simp add: exponent_def n_def)
  have e1: "exponent x + 1 = int (floorlog 2 n)" using e fl by simp
  have lo: "(2::real) ^ (floorlog 2 n - 1) \<le> real n"
    using b(1) by (metis of_nat_le_iff of_nat_numeral of_nat_power)
  have hi: "real n + 1 \<le> 2 ^ floorlog 2 n"
  proof -
    from b(2) have "n + 1 \<le> 2 ^ floorlog 2 n" by simp
    then have "real (n + 1) \<le> real (2 ^ floorlog 2 n)" using of_nat_le_iff by blast
    then show ?thesis by simp
  qed
  have p1: "2 powi (exponent x) = (2::real) ^ (floorlog 2 n - 1)"
    by (simp only: e power_int_of_nat)
  have p2: "2 powi (exponent x + 1) = (2::real) ^ floorlog 2 n"
    by (simp only: e1 power_int_of_nat)
  show ?thesis unfolding p1 p2 using lo hi nx by linarith
next
  case False
  with assms have x1: "0 < \<bar>x\<bar>" "\<bar>x\<bar> < 1" by simp_all
  define y where "y = 1 / \<bar>x\<bar>"
  have y1: "1 < y" using x1 by (simp add: y_def)
  define n where "n = nat (\<lceil>y\<rceil> - 1)"
  have c2: "2 \<le> \<lceil>y\<rceil>" using y1 by linarith
  have n1: "0 < n" using c2 by (simp add: n_def)
  have ny: "real n < y" "y \<le> real n + 1" unfolding n_def using c2 by (simp_all; linarith)+
  from floorlog_bounds[OF n1, of 2]
  have b: "2 ^ (floorlog 2 n - 1) \<le> n" "n < 2 ^ floorlog 2 n" by simp_all
  define k where "k = floorlog 2 n"
  have k1: "0 < k" using n1 by (simp add: floorlog_def k_def)
  have e: "exponent x = - int k" using False by (simp add: exponent_def n_def y_def k_def)
  have lo: "(2::real) ^ (k - 1) < y"
  proof -
    have "(2::real) ^ (k - 1) \<le> real n" using b(1) unfolding k_def by (metis of_nat_le_iff of_nat_numeral of_nat_power)
    with ny(1) show ?thesis by linarith
  qed
  have hi: "y \<le> 2 ^ k"
  proof -
    from b(2) have "n + 1 \<le> 2 ^ k" by (simp add: k_def)
    then have "real (n + 1) \<le> real (2 ^ k)" using of_nat_le_iff by blast
    with ny(2) show ?thesis by simp
  qed
  have p1: "2 powi (- int k) = 1 / (2::real) ^ k" by (simp add: power_int_minus_divide)
  have p2: "2 powi (- int k + 1) = 1 / (2::real) ^ (k - 1)"
  proof -
    have "- int k + 1 = - int (k - 1)" using k1 by simp
    then show ?thesis by (simp only: power_int_minus_divide power_int_of_nat)
  qed
  have xy: "\<bar>x\<bar> = 1 / y" using x1 by (simp add: y_def)
  have "1 / (2::real) ^ k \<le> 1 / y" using hi y1 by (simp add: frac_le)
  moreover have "1 / y < 1 / (2::real) ^ (k - 1)" using lo by (simp add: frac_less2)
  ultimately show ?thesis unfolding e p1 p2 xy by simp
qed

lemma roundEven_cases: "roundEven m = \<lfloor>m\<rfloor> \<or> roundEven m = \<lfloor>m\<rfloor> + 1"
  by (simp add: roundEven_def Let_def)

lemma roundEven_near: "\<bar>of_int (roundEven m) - m\<bar> \<le> 1 / 2"
proof -
  have "of_int \<lfloor>m\<rfloor> \<le> m" "m < of_int \<lfloor>m\<rfloor> + 1" by linarith+
  then show ?thesis by (auto simp: roundEven_def Let_def abs_le_iff)
qed

lemma roundEven_of_int: "roundEven (of_int k) = k"
  by (simp add: roundEven_def Let_def)

lemma roundEven_mono:
  assumes "m \<le> n"
  shows "roundEven m \<le> roundEven n"
proof (cases "\<lfloor>m\<rfloor> = \<lfloor>n\<rfloor>")
  case True
  with assms show ?thesis by (auto simp: roundEven_def Let_def)
next
  case False
  with assms have "\<lfloor>m\<rfloor> < \<lfloor>n\<rfloor>" by (simp add: floor_mono order.strict_iff_order)
  then show ?thesis using roundEven_cases[of m] roundEven_cases[of n] by linarith
qed

lemma roundEven_minus: "roundEven (- m) = - roundEven m"
proof (cases "m = of_int \<lfloor>m\<rfloor>")
  case True
  then obtain k where "m = of_int k" by blast
  then have "- m = of_int (- k)" by simp
  then show ?thesis unfolding \<open>m = of_int k\<close> by (metis roundEven_of_int)
next
  case False
  then have fl: "\<lfloor>- m\<rfloor> = - \<lfloor>m\<rfloor> - 1" by linarith
  have d: "0 < m - of_int \<lfloor>m\<rfloor>" using False by linarith
  show ?thesis unfolding roundEven_def Let_def fl using d by auto
qed

lemma exponent_minus: "exponent (- x) = exponent x"
  by (simp add: exponent_def)

lemma exponent_eqI:
  assumes "2 powi e \<le> \<bar>x\<bar>" and "\<bar>x\<bar> < 2 powi (e + 1)"
  shows "exponent x = e"
proof -
  have pos: "0 < (2::real) powi e" by simp
  have "0 < \<bar>x\<bar>" using assms(1) pos by linarith
  then have x0: "x \<noteq> 0" by simp
  note b = exponent_bounds[OF x0]
  have 1: "e < exponent x + 1"
  proof (rule ccontr)
    assume "\<not> e < exponent x + 1"
    then have "(2::real) powi (exponent x + 1) \<le> 2 powi e" by (intro power_int_increasing) simp_all
    with assms(1) b show False by linarith
  qed
  have 2: "exponent x < e + 1"
  proof (rule ccontr)
    assume "\<not> exponent x < e + 1"
    then have "(2::real) powi (e + 1) \<le> 2 powi (exponent x)" by (intro power_int_increasing) simp_all
    with assms(2) b show False by linarith
  qed
  from 1 2 show ?thesis by simp
qed

lemma exponent_mono:
  assumes "0 < x" and "x \<le> y"
  shows "exponent x \<le> exponent y"
proof (rule ccontr)
  assume "\<not> exponent x \<le> exponent y"
  then have "(2::real) powi (exponent y + 1) \<le> 2 powi (exponent x)"
    by (intro power_int_increasing) simp_all
  moreover have "2 powi (exponent x) \<le> \<bar>x\<bar>" using exponent_bounds[of x] assms(1) by simp
  moreover have "\<bar>y\<bar> < 2 powi (exponent y + 1)" using exponent_bounds[of y] assms by simp
  ultimately show False using assms by linarith
qed

lemma ulp_scale:
  "(2::real) powi e = 2 ^ 52 * 2 powi (e - 52)" "(2::real) powi (e + 1) = 2 ^ 53 * 2 powi (e - 52)"
proof -
  have "(2::real) powi e = 2 powi (52 + (e - 52))"
    by (rule arg_cong[where f = "\<lambda>k. 2 powi k"]) simp
  also have "\<dots> = 2 powi 52 * 2 powi (e - 52)" by (rule power_int_add) simp
  finally show "(2::real) powi e = 2 ^ 52 * 2 powi (e - 52)" by simp
  have "(2::real) powi (e + 1) = 2 powi (53 + (e - 52))"
    by (rule arg_cong[where f = "\<lambda>k. 2 powi k"]) simp
  also have "\<dots> = 2 powi 53 * 2 powi (e - 52)" by (rule power_int_add) simp
  finally show "(2::real) powi (e + 1) = 2 ^ 53 * 2 powi (e - 52)" by simp
qed

lemma mantissa_bounds:
  assumes "0 < x"
  shows "2 ^ 52 \<le> x / 2 powi (exponent x - 52) \<and> x / 2 powi (exponent x - 52) < 2 ^ 53"
proof -
  have u: "0 < (2::real) powi (exponent x - 52)" by simp
  from exponent_bounds[of x] assms
  have "2 ^ 52 * 2 powi (exponent x - 52) \<le> x" "x < 2 ^ 53 * 2 powi (exponent x - 52)"
    unfolding ulp_scale[symmetric] by simp_all
  then show ?thesis using u by (simp add: pos_le_divide_eq pos_divide_less_eq)
qed

lemma round64_pos:
  assumes "0 < x"
  shows "round64 x = of_int (roundEven (x / 2 powi (exponent x - 52))) * 2 powi (exponent x - 52)"
  using assms by (simp add: round64_def Let_def)

lemma round64_binade:
  assumes "0 < x"
  shows "2 powi (exponent x) \<le> round64 x \<and> round64 x \<le> 2 powi (exponent x + 1)"
proof -
  let ?u = "(2::real) powi (exponent x - 52)"
  let ?m = "x / ?u"
  have u: "0 < ?u" by simp
  from mantissa_bounds[OF assms] have a: "of_int (2 ^ 52) \<le> ?m" and b: "?m \<le> of_int (2 ^ 53)"
    by simp_all
  have "roundEven (of_int (2 ^ 52)) \<le> roundEven ?m" "roundEven ?m \<le> roundEven (of_int (2 ^ 53))"
    using roundEven_mono[OF a] roundEven_mono[OF b] by blast+
  then have "2 ^ 52 \<le> roundEven ?m" "roundEven ?m \<le> 2 ^ 53" unfolding roundEven_of_int by simp_all
  then have "(2::real) ^ 52 \<le> of_int (roundEven ?m)" "of_int (roundEven ?m) \<le> (2::real) ^ 53"
    by (metis of_int_le_iff of_int_numeral of_int_power)+
  then have "2 ^ 52 * ?u \<le> of_int (roundEven ?m) * ?u" "of_int (roundEven ?m) * ?u \<le> 2 ^ 53 * ?u"
    using u by (simp_all only: mult_le_cancel_right_pos)
  then show ?thesis unfolding round64_pos[OF assms] ulp_scale[symmetric] by simp
qed

lemma round64_minus: "round64 (- x) = - round64 x"
  by (simp add: round64_def Let_def exponent_minus roundEven_minus)

lemma round64_zero: "round64 0 = 0"
  by (simp add: round64_def)

lemma round64_pos_pos:
  assumes "0 < x"
  shows "0 < round64 x"
proof -
  have "0 < (2::real) powi (exponent x)" by simp
  with round64_binade[OF assms] show ?thesis by linarith
qed

lemma round64_nonneg: "0 \<le> x \<Longrightarrow> 0 \<le> round64 x"
  using round64_pos_pos[of x] round64_zero by (cases "x = 0") auto

lemma round64_mono_pos:
  assumes "0 < x" and "x \<le> y"
  shows "round64 x \<le> round64 y"
proof (cases "exponent x = exponent y")
  case True
  have y: "0 < y" using assms by simp
  have u: "0 < (2::real) powi (exponent y - 52)" by simp
  have "x / 2 powi (exponent y - 52) \<le> y / 2 powi (exponent y - 52)"
    using assms(2) u by (simp add: divide_right_mono)
  then have "roundEven (x / 2 powi (exponent y - 52)) \<le> roundEven (y / 2 powi (exponent y - 52))"
    by (rule roundEven_mono)
  then have "of_int (roundEven (x / 2 powi (exponent y - 52))) * 2 powi (exponent y - 52)
           \<le> of_int (roundEven (y / 2 powi (exponent y - 52))) * (2::real) powi (exponent y - 52)"
    using u by (simp only: mult_le_cancel_right_pos of_int_le_iff)
  then show ?thesis unfolding round64_pos[OF assms(1)] round64_pos[OF y] True .
next
  case False
  have y: "0 < y" using assms by simp
  from False exponent_mono[OF assms] have "exponent x + 1 \<le> exponent y" by simp
  then have "(2::real) powi (exponent x + 1) \<le> 2 powi (exponent y)"
    by (intro power_int_increasing) simp_all
  with round64_binade[OF assms(1)] round64_binade[OF y] show ?thesis by linarith
qed

lemma round64_mono:
  assumes "x \<le> y"
  shows "round64 x \<le> round64 y"
proof -
  consider "0 < x" | "x \<le> 0" "0 \<le> y" | "y < 0" by linarith
  then show ?thesis
  proof cases
    case 1
    then show ?thesis using assms by (rule round64_mono_pos)
  next
    case 2
    have "round64 x \<le> 0" using round64_nonneg[of "- x"] 2(1) by (simp add: round64_minus)
    moreover have "0 \<le> round64 y" using 2(2) by (rule round64_nonneg)
    ultimately show ?thesis by simp
  next
    case 3
    have "round64 (- y) \<le> round64 (- x)" using 3 assms by (intro round64_mono_pos) simp_all
    then show ?thesis by (simp add: round64_minus)
  qed
qed

lemma round64_exactI:
  assumes "0 < x" and "x / 2 powi (exponent x - 52) = of_int j"
  shows "round64 x = x"
proof -
  have u: "(2::real) powi (exponent x - 52) \<noteq> 0" by simp
  have "round64 x = of_int j * 2 powi (exponent x - 52)"
    unfolding round64_pos[OF assms(1)] assms(2) roundEven_of_int ..
  also have "\<dots> = x" unfolding assms(2)[symmetric] using u by simp
  finally show ?thesis .
qed

lemma round64_of_nat:
  assumes "n < 2 ^ 53"
  shows "round64 (real n) = real n"
proof (cases "n = 0")
  case True
  then show ?thesis by (simp add: round64_zero)
next
  case False
  then have x: "0 < real n" by simp
  let ?e = "exponent (real n)"
  have "real n < 2 ^ 53" using assms by (metis of_nat_less_iff of_nat_numeral of_nat_power)
  then have "2 powi ?e < (2::real) powi 53" using exponent_bounds[of "real n"] x by simp
  then have e: "?e < 53"
  proof -
    have "\<not> 53 \<le> ?e"
    proof
      assume "53 \<le> ?e"
      then have "(2::real) powi 53 \<le> 2 powi ?e" by (intro power_int_increasing) simp_all
      with \<open>2 powi ?e < (2::real) powi 53\<close> show False by linarith
    qed
    then show ?thesis by simp
  qed
  have "(2::real) powi (?e - 52) * 2 powi (52 - ?e) = 2 powi ((?e - 52) + (52 - ?e))"
    by (rule power_int_add[symmetric]) simp
  then have inv: "(2::real) powi (?e - 52) * 2 powi (52 - ?e) = 1" by simp
  have nn: "(2::real) powi (52 - ?e) = 2 ^ nat (52 - ?e)" using e by (simp add: power_int_def)
  have "real n / 2 powi (?e - 52) = real n * 2 powi (52 - ?e)"
    using inv by (simp add: field_simps)
  also have "\<dots> = of_int (int n * 2 ^ nat (52 - ?e))" unfolding nn by simp
  finally show ?thesis by (rule round64_exactI[OF x])
qed

lemma round64_one: "round64 1 = 1"
  using round64_of_nat[of 1] by simp

lemma round64_hundred: "round64 100 = 100"
  using round64_of_nat[of 100] by simp

lemma round64_error: "\<bar>round64 x - x\<bar> \<le> \<bar>x\<bar> / 2 ^ 53"
proof -
  have pos: "\<bar>round64 x - x\<bar> \<le> x / 2 ^ 53" if x: "0 < x" for x
  proof -
    let ?u = "(2::real) powi (exponent x - 52)"
    have u: "0 < ?u" by simp
    have m: "x = (x / ?u) * ?u" using u by simp
    have "round64 x - x = (of_int (roundEven (x / ?u)) - x / ?u) * ?u"
      unfolding round64_pos[OF x] using u by (simp add: field_simps)
    then have "\<bar>round64 x - x\<bar> = \<bar>of_int (roundEven (x / ?u)) - x / ?u\<bar> * ?u"
      using u by (simp add: abs_mult)
    also have "\<dots> \<le> 1 / 2 * ?u"
      using roundEven_near[of "x / ?u"] u by (intro mult_right_mono) simp_all
    also have "\<dots> \<le> x / 2 ^ 53"
    proof -
      from mantissa_bounds[OF x] have "2 ^ 52 \<le> x / ?u" by simp
      then have "2 ^ 52 * ?u \<le> x" using u by (simp add: pos_le_divide_eq)
      then show ?thesis by simp
    qed
    finally show ?thesis .
  qed
  consider "0 < x" | "x = 0" | "0 < - x" by linarith
  then show ?thesis
  proof cases
    case 1
    then show ?thesis using pos[of x] by simp
  next
    case 2
    then show ?thesis by (simp add: round64_zero)
  next
    case 3
    from pos[OF 3] show ?thesis using 3 by (simp add: round64_minus abs_minus_commute)
  qed
qed

lemma round64_value:
  assumes "0 < x" and "2 powi e \<le> x" and "x < 2 powi (e + 1)"
    and "real_of_int f \<le> x / 2 powi (e - 52)" and "x / 2 powi (e - 52) < real_of_int f + 1"
    and "r = real_of_int (if x / 2 powi (e - 52) - real_of_int f < 1 / 2 then f
                          else if 1 / 2 < x / 2 powi (e - 52) - real_of_int f then f + 1
                          else if even f then f else f + 1) * 2 powi (e - 52)"
  shows "round64 x = r"
proof -
  have e: "exponent x = e" using assms(1,2,3) by (intro exponent_eqI) simp_all
  have f: "\<lfloor>x / 2 powi (e - 52)\<rfloor> = f" using assms(4,5) by linarith
  show ?thesis using assms(1) unfolding assms(6) round64_def Let_def e roundEven_def f by simp
qed

text \<open>The test \<open>m < n * 0.8\<close> on two lengths has the same outcome on doubles as on
  exact numbers.\<close>

lemma round64_four_fifths: "round64 (4 / 5) = 3602879701896397 / 4503599627370496"
  by (rule round64_value[where e = "- 1" and f = 7205759403792793]) simp_all

lemma round64_above_nat:
  assumes "0 < n" and "n < 2 ^ 53"
  shows "round64 (real n + real n / 2 ^ 54) = real n"
proof -
  let ?m = "real n"
  let ?e = "exponent ?m"
  let ?x = "?m + ?m / 2 ^ 54"
  have m0: "0 < ?m" using assms(1) by simp
  have m1: "1 \<le> ?m" using assms(1) by simp
  have b: "2 powi ?e \<le> ?m" "?m < 2 powi (?e + 1)" using exponent_bounds[of ?m] m0 by simp_all
  have m53: "?m < 2 ^ 53" using assms(2) by (metis of_nat_less_iff of_nat_numeral of_nat_power)
  have e53: "?e < 53"
  proof (rule ccontr)
    assume "\<not> ?e < 53"
    then have "(2::real) powi 53 \<le> 2 powi ?e" by (intro power_int_increasing) simp_all
    with b(1) m53 show False by simp
  qed
  have e0: "0 \<le> ?e"
  proof (rule ccontr)
    assume "\<not> 0 \<le> ?e"
    then have "(2::real) powi (?e + 1) \<le> 2 powi 0" by (intro power_int_increasing) simp_all
    with b(2) m1 show False by simp
  qed
  define k where "k = nat (?e + 1)"
  have pk: "(2::real) powi (?e + 1) = 2 ^ k" using e0 by (simp add: power_int_def k_def)
  have "real n < real (2 ^ k)" using b(2) unfolding pk by simp
  then have "n < 2 ^ k" by (simp only: of_nat_less_iff)
  then have "Suc n \<le> 2 ^ k" by simp
  then have "real (Suc n) \<le> real (2 ^ k)" by (simp only: of_nat_le_iff)
  then have up: "?m + 1 \<le> 2 powi (?e + 1)" unfolding pk by simp
  have small: "?m / 2 ^ 54 < 1 / 2" using m53 by simp
  have x0: "0 < ?x" using m0 by (simp add: add_pos_pos)
  have x1: "2 powi ?e \<le> ?x" using b(1) m0 by (simp add: add_increasing2)
  have x2: "?x < 2 powi (?e + 1)" using up small by linarith
  define j where "j = int n * 2 ^ nat (52 - ?e)"
  define u :: real where "u = 2 powi (?e - 52)"
  have u0: "0 < u" by (simp add: u_def)
  have "(2::real) powi (?e - 52) * 2 powi (52 - ?e) = 2 powi ((?e - 52) + (52 - ?e))"
    by (rule power_int_add[symmetric]) simp
  then have inv: "u * 2 powi (52 - ?e) = 1" by (simp add: u_def)
  have nn: "(2::real) powi (52 - ?e) = 2 ^ nat (52 - ?e)" using e53 by (simp add: power_int_def)
  have "?m / u = ?m * 2 powi (52 - ?e)" using inv u0 by (simp add: field_simps)
  also have "\<dots> = of_int j" unfolding nn j_def by simp
  finally have mu: "?m / u = of_int j" .
  have mj: "?m = of_int j * u" using mu u0 by (simp add: field_simps)
  have "?x / u = ?m / u + (?m / u) / 2 ^ 54" by (simp add: add_divide_distrib)
  then have xu: "?x / u = of_int j + of_int j / 2 ^ 54" unfolding mu .
  have "?m / u < 2 ^ 53" using mantissa_bounds[OF m0] by (simp add: u_def)
  then have j53: "real_of_int j < 2 ^ 53" unfolding mu .
  have j0: "0 \<le> real_of_int j" by (simp add: j_def)
  have d: "0 \<le> real_of_int j / 2 ^ 54" "real_of_int j / 2 ^ 54 < 1 / 2" using j0 j53 by simp_all
  show ?thesis
  proof (rule round64_value[where e = ?e and f = j])
    show "0 < ?x" by (rule x0)
    show "2 powi ?e \<le> ?x" by (rule x1)
    show "?x < 2 powi (?e + 1)" by (rule x2)
    show "real_of_int j \<le> ?x / 2 powi (?e - 52)" using d(1) unfolding u_def[symmetric] xu by simp
    show "?x / 2 powi (?e - 52) < real_of_int j + 1" using d(2) unfolding u_def[symmetric] xu by simp
    have lt: "?x / 2 powi (?e - 52) - real_of_int j < 1 / 2"
      using d(2) unfolding u_def[symmetric] xu by simp
    show "?m = real_of_int (if ?x / 2 powi (?e - 52) - real_of_int j < 1 / 2 then j
                          else if 1 / 2 < ?x / 2 powi (?e - 52) - real_of_int j then j + 1
                          else if even j then j else j + 1) * 2 powi (?e - 52)"
      unfolding if_P[OF lt] using mj unfolding u_def .
  qed
qed

lemma length_test_double:
  assumes "n < 2 ^ 50"
  shows "real m < fmul (real n) (round64 0.8) \<longleftrightarrow> real m < real n * 0.8"
proof (cases "n = 0")
  case True
  then show ?thesis by (simp add: fmul_def round64_zero)
next
  case False
  define L :: real where "L = round64 0.8"
  define x where "x = real n * L"
  define y where "y = fmul (real n) L"
  define w :: real where "w = 1 / 2 ^ 54"
  have "(0.8::real) = 4 / 5" by simp
  then have "L = 3602879701896397 / 4503599627370496" unfolding L_def by (simp only: round64_four_fifths)
  then have L: "L = 4 / 5 + (4 / 5) * w" by (simp add: w_def)
  have n0: "0 < real n" using False by simp
  have "real n < real (2 ^ 50)" using assms by (simp only: of_nat_less_iff)
  then have n50: "real n < 1125899906842624" by simp
  have w0: "0 < w" by (simp add: w_def)
  have nw: "real n * w < 1 / 16" using n50 by (simp add: w_def)
  have x: "x = real n * (4 / 5) + (4 / 5) * (real n * w)" unfolding x_def L by (simp add: algebra_simps)
  have nw0: "0 < real n * w" using n0 w0 by simp
  have x0: "0 < x" unfolding x using n0 nw0 by simp
  have xn: "x < 1125899906842624" unfolding x using n50 nw by linarith
  have "\<bar>y - x\<bar> \<le> \<bar>x\<bar> / 2 ^ 53" unfolding y_def x_def fmul_def by (rule round64_error)
  moreover have "\<bar>x\<bar> / 2 ^ 53 < 1 / 8" using x0 xn by simp
  ultimately have e: "y - x < 1 / 8" "x - y < 1 / 8" by linarith+
  consider (lt) "5 * m < 4 * n" | (gt) "4 * n < 5 * m" | (eq) "5 * m = 4 * n" by linarith
  then have "real m < y \<longleftrightarrow> real m < real n * (4 / 5)"
  proof cases
    case lt
    then have "5 * m + 1 \<le> 4 * n" by simp
    then have "real (5 * m + 1) \<le> real (4 * n)" by (simp only: of_nat_le_iff)
    then have c: "5 * real m + 1 \<le> 4 * real n" by simp
    have "real m < y" using c e x nw nw0 by linarith
    moreover have "real m < real n * (4 / 5)" using c by simp
    ultimately show ?thesis by simp
  next
    case gt
    then have "4 * n + 1 \<le> 5 * m" by simp
    then have "real (4 * n + 1) \<le> real (5 * m)" by (simp only: of_nat_le_iff)
    then have c: "4 * real n + 1 \<le> 5 * real m" by simp
    have "\<not> real m < y" using c e x nw nw0 by linarith
    moreover have "\<not> real m < real n * (4 / 5)" using c by simp
    ultimately show ?thesis by simp
  next
    case eq
    then have "real (5 * m) = real (4 * n)" by simp
    then have c: "5 * real m = 4 * real n" by simp
    have m0: "0 < m" using eq False by (cases m) simp_all
    have "real m < 1125899906842624" using c n50 by linarith
    then have "real m < real (2 ^ 53)" by simp
    then have m53: "m < 2 ^ 53" by (simp only: of_nat_less_iff)
    have "x = real m + real m / 2 ^ 54" unfolding x using c by (simp add: w_def)
    then have "round64 x = real m" using round64_above_nat[OF m0 m53] by (simp only:)
    then have "y = real m" unfolding y_def fmul_def x_def[symmetric] .
    moreover have "\<not> real m < real n * (4 / 5)" using c by simp
    ultimately show ?thesis by simp
  qed
  then show ?thesis unfolding y_def L_def by simp
qed

section \<open>Facts about the sentence scores\<close>

lemma length_calc: "length (calculateSentenceScores nl ss) = length ss"
  by (simp add: calculateSentenceScores_def Let_def)

lemma nth_calc:
  "i < length ss \<Longrightarrow>
   calculateSentenceScores nl ss ! i = scoreSentence nl (map (termsOf nl) ss) i (ss ! i)"
  by (simp add: calculateSentenceScores_def Let_def nth_enumerate_eq)


lemma sentence_calc:
  assumes "x \<in> set (calculateSentenceScores nl ss)"
  shows "sentence x = ss ! index x \<and> index x < length ss"
proof -
  from assms obtain i where "i < length ss" "x = calculateSentenceScores nl ss ! i"
    by (metis in_set_conv_nth length_calc)
  then show ?thesis by (simp add: nth_calc scoreSentence_def Let_def)
qed

lemma map_sort_key: "map f (sort_key f xs) = sort (map f xs)"
  by (rule properties_for_sort[symmetric]) (simp_all add: sorted_sort_key)

lemma set_slice0: "set (slice0 n xs) \<subseteq> set xs"
  by (auto simp: slice0_def dest: in_set_takeD)






lemma length_slice0_general:
  "n \<le> int (length xs) \<Longrightarrow>
   length (slice0 n xs) = (if 0 \<le> n then nat n else nat (int (length xs) + n))"
  by (simp add: slice0_def)

lemma sampleText_sentences:
  "splitIntoSentences sampleText =
     [''The cat sat on the warm mat'', ''A dog ran over the green hill'',
      ''Birds sing in the tall old trees'']"
  by code_simp

lemma join_nonempty: "xs \<noteq> [] \<Longrightarrow> hd xs \<noteq> [] \<Longrightarrow> join sep xs \<noteq> []"
  by (cases "(sep, xs)" rule: join.cases) auto

lemma sentence_long: "s \<in> set (splitIntoSentences t) \<Longrightarrow> 15 < length s"
  by (simp add: splitIntoSentences_def)

lemma map_sentence_top:
  "map sentence (topSentences nl n ss) = map (\<lambda>i. ss ! i) (selectedIndices nl n ss)"
proof -
  let ?sel = "slice0 n (sort_key (\<lambda>item. - ScoredSentence.score item) (calculateSentenceScores nl ss))"
  have sub: "set ?sel \<subseteq> set (calculateSentenceScores nl ss)"
    using set_slice0[of n] by (metis set_sort)
  have "map sentence (sort_key index ?sel) = map (\<lambda>x. ss ! index x) (sort_key index ?sel)"
    using sub sentence_calc by (intro map_cong refl) (auto simp: subset_iff)
  also have "\<dots> = map (\<lambda>i. ss ! i) (map index (sort_key index ?sel))" by simp
  also have "\<dots> = map (\<lambda>i. ss ! i) (selectedIndices nl n ss)"
    by (simp only: map_sort_key selectedIndices_def)
  finally show ?thesis by (simp only: topSentences_def)
qed


lemma selectedIndices_bound: "i \<in> set (selectedIndices nl n ss) \<Longrightarrow> i < length ss"
proof -
  assume "i \<in> set (selectedIndices nl n ss)"
  then obtain x where "x \<in> set (slice0 n (sort_key (\<lambda>item. - ScoredSentence.score item)
                                         (calculateSentenceScores nl ss)))" "i = index x"
    by (auto simp: selectedIndices_def)
  then have "x \<in> set (calculateSentenceScores nl ss)" using set_slice0[of n] by (metis set_sort subsetD)
  with \<open>i = index x\<close> sentence_calc show ?thesis by simp
qed

lemma selectedIndices_length:
  "n \<le> int (length ss) \<Longrightarrow>
   length (selectedIndices nl n ss) = (if 0 \<le> n then nat n else nat (int (length ss) + n))"
  by (simp add: selectedIndices_def length_slice0_general length_calc)

lemma generateSummary_nonempty:
  assumes "splitIntoSentences content \<noteq> []" and "1 \<le> maxSentencesOf config"
  shows "generateSummary nl content config \<noteq> []"
proof (cases "int (length (splitIntoSentences content)) \<le> maxSentencesOf config")
  case True
  have "hd (splitIntoSentences content) \<noteq> []"
    using sentence_long[of "hd (splitIntoSentences content)" content] assms(1) by auto
  with True assms(1) show ?thesis
    by (simp add: generateSummary_def Let_def join_nonempty)
next
  case False
  let ?ss = "splitIntoSentences content" and ?n = "maxSentencesOf config"
  let ?is = "selectedIndices nl ?n ?ss"
  from False assms(2) have "length ?is = nat ?n" by (simp add: selectedIndices_length)
  with assms(2) have ne: "?is \<noteq> []" by auto
  then have "hd ?is \<in> set ?is" by simp
  then have "hd ?is < length ?ss" by (rule selectedIndices_bound)
  then have "?ss ! hd ?is \<in> set ?ss" by (rule nth_mem)
  then have "15 < length (?ss ! hd ?is)" by (rule sentence_long)
  then have "hd (map (\<lambda>i. ?ss ! i) ?is) \<noteq> []" using ne by (auto simp: hd_map)
  with ne have "join '' '' (map (\<lambda>i. ?ss ! i) ?is) \<noteq> []" by (intro join_nonempty) auto
  with False show ?thesis by (simp add: generateSummary_def Let_def map_sentence_top)
qed

lemma generateSummary_empty:
  assumes "splitIntoSentences content = []"
  shows "generateSummary nl content config = []"
  using assms
  by (simp add: generateSummary_def Let_def topSentences_def calculateSentenceScores_def slice0_def)























section \<open>Facts about the provider chain\<close>

lemma tryProviders_all_fail:
  "list_all (attemptFails content) ps \<Longrightarrow> fst (tryProviders content config ps trace) = None"
proof (induction ps arbitrary: trace)
  case Nil
  then show ?case by simp
next
  case (Cons p ps)
  obtain name run where p: "p = (name, run)" by (cases p)
  from Cons.prems have f: "attemptFails content p" and r: "list_all (attemptFails content) ps"
    by simp_all
  show ?case
  proof (cases "run ()")
    case (Inl e)
    with p Cons.IH[OF r] show ?thesis by simp
  next
    case (Inr s)
    with f p have "\<not> isValidSummary s content" by (simp add: attemptFails_def)
    with Inr p Cons.IH[OF r] show ?thesis by simp
  qed
qed

lemma failureText_accepted: "acceptResponse who (Some failureText) = Inr failureText"
  unfolding acceptResponse_def failureText_def by code_simp

lemma isValidSummary_exact:
  assumes "length originalContent < 2 ^ 50"
  shows "isValidSummary s originalContent \<longleftrightarrow>
           cleanSummary s \<noteq> [] \<and>
           length (cleanSummary s) \<ge> 20 \<and>
           real (length (cleanSummary s)) < real (length originalContent) * 0.8 \<and>
           length (split_char (CHR '' '') (cleanSummary s)) \<ge> 10 \<and>
           \<not> str_includes (toLowerCase (cleanSummary s)) ''error'' \<and>
           \<not> str_includes (toLowerCase (cleanSummary s)) ''failed'' \<and>
           \<not> str_includes (cleanSummary s) ''undefined''"
  unfolding isValidSummary_def Let_def length_test_double[OF assms] ..

lemma sampleText_short: "length sampleText < 2 ^ 50"
  by (simp add: sampleText_def)

lemma failureText_rejected: "\<not> isValidSummary failureText sampleText"
  unfolding isValidSummary_exact[OF sampleText_short] by code_simp

lemma rejected_all_fail: "allAttemptsFail rejectedEnv sampleText defaultConfig"
  by (simp add: allAttemptsFail_def attemptFails_def providers_def rejectedEnv_def
      generateOllamaSummary_def generateCohereSummary_def generateHuggingFaceSummary_def
      generateOpenAISummary_def defaultConfig_def Let_def
      failureText_accepted failureText_rejected)

lemma sampleConfig_max: "maxSentencesOf defaultConfig = 3"
  by (simp add: maxSentencesOf_def defaultConfig_def)

lemma headlines_sentences: "splitIntoSentences headlines = []"
  by code_simp

lemma offline_all_fail: "allAttemptsFail offlineEnv headlines defaultConfig"
  by code_simp

section \<open>Facts about the recommendation scores\<close>

lemma round64_le_one: "x \<le> 1 \<Longrightarrow> round64 x \<le> 1"
  using round64_mono[of x 1] by (simp add: round64_one)

lemma fdiv_unit:
  assumes "0 \<le> x" and "x \<le> y" and "0 < y"
  shows "0 \<le> fdiv x y \<and> fdiv x y \<le> 1"
proof -
  have "0 \<le> x / y" "x / y \<le> 1" using assms by simp_all
  then show ?thesis unfolding fdiv_def by (simp add: round64_nonneg round64_le_one)
qed

lemma fmul_nonneg: "0 \<le> x \<Longrightarrow> 0 \<le> y \<Longrightarrow> 0 \<le> fmul x y"
  unfolding fmul_def by (intro round64_nonneg) simp

lemma fadd_nonneg: "0 \<le> x \<Longrightarrow> 0 \<le> y \<Longrightarrow> 0 \<le> fadd x y"
  unfolding fadd_def by (intro round64_nonneg) simp

lemma literal_unit: "0 \<le> x \<Longrightarrow> x \<le> 1 \<Longrightarrow> 0 \<le> round64 x \<and> round64 x \<le> 1"
  by (simp add: round64_nonneg round64_le_one)

lemma interest_range: "0 \<le> calculateInterestScore us ts \<and> calculateInterestScore us ts \<le> 1"
proof (cases "length us = 0 \<or> length ts = 0")
  case True
  then show ?thesis by (simp add: calculateInterestScore_def)
next
  case False
  have "length (filter P us) \<le> length us" for P :: "string \<Rightarrow> bool" by simp
  then have "real (length (filter P us)) \<le> real (length us)" for P :: "string \<Rightarrow> bool"
    using of_nat_le_iff by blast
  then have "0 \<le> fdiv (real (length (filter P us))) (real (length us))
           \<and> fdiv (real (length (filter P us))) (real (length us)) \<le> 1" for P :: "string \<Rightarrow> bool"
    using False by (intro fdiv_unit) simp_all
  with False show ?thesis by (simp add: calculateInterestScore_def)
qed

lemma popularity_range:
  "0 \<le> calculatePopularityScore store aid \<and> calculatePopularityScore store aid \<le> 1"
proof -
  have "0 \<le> fdiv (real (weightedTotal store aid)) 100"
    unfolding fdiv_def by (intro round64_nonneg) simp
  then show ?thesis by (simp add: calculatePopularityScore_def)
qed

lemma freshness_range:
  "0 \<le> calculateFreshnessScore now created \<and> calculateFreshnessScore now created \<le> 1"
  using literal_unit[of "0.9"] literal_unit[of "0.7"] literal_unit[of "0.4"] literal_unit[of "0.2"]
  by (simp add: calculateFreshnessScore_def Let_def)

lemma foldl_fadd_bound:
  assumes "\<And>x. x \<in> set xs \<Longrightarrow> 0 \<le> x \<and> x \<le> 1"
    and "0 \<le> a" and "a \<le> real k" and "k + length xs < 2 ^ 53"
  shows "0 \<le> foldl (\<lambda>total x. fadd total x) a xs
       \<and> foldl (\<lambda>total x. fadd total x) a xs \<le> real (k + length xs)"
  using assms
proof (induction xs arbitrary: a k)
  case Nil
  then show ?case by simp
next
  case (Cons x xs)
  have x: "0 \<le> x" "x \<le> 1" using Cons.prems(1)[of x] by simp_all
  have k: "Suc k < 2 ^ 53" using Cons.prems(4) by simp
  have lo: "0 \<le> fadd a x" using Cons.prems(2) x(1) by (rule fadd_nonneg)
  have "a + x \<le> real (Suc k)" using Cons.prems(3) x(2) by simp
  then have "round64 (a + x) \<le> round64 (real (Suc k))" by (rule round64_mono)
  then have hi: "fadd a x \<le> real (Suc k)" unfolding fadd_def round64_of_nat[OF k] .
  have "0 \<le> foldl (\<lambda>total x. fadd total x) (fadd a x) xs
       \<and> foldl (\<lambda>total x. fadd total x) (fadd a x) xs \<le> real (Suc k + length xs)"
    using Cons.prems(1,4) by (intro Cons.IH[OF _ lo hi]) simp_all
  then show ?case by simp
qed

lemma authorScore_eq:
  "calculateAuthorScore store a =
     (let xs = take 10 (filter (\<lambda>x. author x = a) (articles store))
      in if xs = [] then 1 / 2
         else fdiv (foldl (\<lambda>total x. fadd total x) 0
                      (map (\<lambda>x. calculatePopularityScore store (article_id x)) xs))
                (real (length xs)))"
  by (simp add: calculateAuthorScore_def Let_def queryLimit_def)

lemma author_range:
  "0 \<le> calculateAuthorScore store a \<and> calculateAuthorScore store a \<le> 1"
proof -
  let ?xs = "take 10 (filter (\<lambda>x. author x = a) (articles store))"
  let ?ps = "map (\<lambda>x. calculatePopularityScore store (article_id x)) ?xs"
  show ?thesis
  proof (cases "?xs = []")
    case True
    then show ?thesis unfolding authorScore_eq Let_def by simp
  next
    case False
    have len: "length ?ps \<le> 10" by simp
    have "(0::nat) + length ?ps < 2 ^ 53" using len by simp
    then have "0 \<le> foldl (\<lambda>total x. fadd total x) 0 ?ps
             \<and> foldl (\<lambda>total x. fadd total x) 0 ?ps \<le> real (0 + length ?ps)"
      by (intro foldl_fadd_bound) (auto simp: popularity_range)
    then have "0 \<le> fdiv (foldl (\<lambda>total x. fadd total x) 0 ?ps) (real (length ?xs))
             \<and> fdiv (foldl (\<lambda>total x. fadd total x) 0 ?ps) (real (length ?xs)) \<le> 1"
      using False by (intro fdiv_unit) (simp_all del: length_take)
    with False show ?thesis unfolding authorScore_eq Let_def by simp
  qed
qed

lemma score_eq:
  "RecommendationScore.score (calculateRecommendationScore now store user a) =
     min (fadd (fadd (fadd (fadd 0
            (fmul (calculateInterestScore (interests user) (tags a)) (round64 0.4)))
            (fmul (calculatePopularityScore store (article_id a)) (round64 0.3)))
            (fmul (calculateFreshnessScore now (Article.createdAt a)) (round64 0.2)))
            (fmul (calculateAuthorScore store (author a)) (round64 0.1))) 1"
  by (simp add: calculateRecommendationScore_def Let_def)

lemma score_range:
  "0 \<le> RecommendationScore.score (calculateRecommendationScore now store user a)
   \<and> RecommendationScore.score (calculateRecommendationScore now store user a) \<le> 1"
proof -
  have w: "0 \<le> round64 0.4" "0 \<le> round64 0.3" "0 \<le> round64 0.2" "0 \<le> round64 0.1"
    by (simp_all add: round64_nonneg)
  note r = interest_range[of "interests user" "tags a"] popularity_range[of store "article_id a"]
      freshness_range[of now "Article.createdAt a"] author_range[of store "author a"]
  have "0 \<le> fadd (fadd (fadd (fadd 0
            (fmul (calculateInterestScore (interests user) (tags a)) (round64 0.4)))
            (fmul (calculatePopularityScore store (article_id a)) (round64 0.3)))
            (fmul (calculateFreshnessScore now (Article.createdAt a)) (round64 0.2)))
            (fmul (calculateAuthorScore store (author a)) (round64 0.1))"
    using r w by (intro fadd_nonneg fmul_nonneg) simp_all
  then show ?thesis unfolding score_eq by simp
qed

lemma round2_props:
  assumes "0 \<le> x" and "x \<le> 1"
  shows "0 \<le> \<lfloor>fmul x 100 + 1 / 2\<rfloor> \<and> \<lfloor>fmul x 100 + 1 / 2\<rfloor> \<le> 100
         \<and> 0 \<le> round2 x \<and> round2 x \<le> 1
         \<and> \<bar>round2 x - x\<bar> \<le> 1 / 200 + 1 / 2 ^ 52"
proof -
  define p where "p = fmul x 100"
  define k where "k = \<lfloor>p + 1 / 2\<rfloor>"
  have r: "round2 x = fdiv (real_of_int k) 100" by (simp only: round2_def k_def p_def)
  have p0: "0 \<le> p" unfolding p_def using assms(1) by (intro fmul_nonneg) simp_all
  have "x * 100 \<le> 100" using assms(2) by simp
  then have "round64 (x * 100) \<le> round64 100" by (rule round64_mono)
  then have p1: "p \<le> 100" unfolding p_def fmul_def round64_hundred .
  have pe: "\<bar>p - x * 100\<bar> \<le> \<bar>x * 100\<bar> / 2 ^ 53" unfolding p_def fmul_def by (rule round64_error)
  have klo: "real_of_int k \<le> p + 1 / 2" unfolding k_def by (rule of_int_floor_le)
  have khi: "p + 1 / 2 < real_of_int k + 1" unfolding k_def by linarith
  have k0: "0 \<le> k"
  proof -
    have "(0::real) \<le> p + 1 / 2" using p0 by simp
    then show ?thesis unfolding k_def by (simp only: zero_le_floor of_int_0)
  qed
  have k1: "k \<le> 100"
  proof -
    have "p + 1 / 2 < real_of_int 101" using p1 by simp
    then have "k < 101" unfolding k_def by (simp only: floor_less_iff)
    then show ?thesis by simp
  qed
  have kr: "0 \<le> real_of_int k" "real_of_int k \<le> 100" using k0 k1 by simp_all
  have q: "0 \<le> fdiv (real_of_int k) 100 \<and> fdiv (real_of_int k) 100 \<le> 1"
    using kr by (intro fdiv_unit) simp_all
  have qe: "\<bar>fdiv (real_of_int k) 100 - real_of_int k / 100\<bar> \<le> \<bar>real_of_int k / 100\<bar> / 2 ^ 53"
    unfolding fdiv_def by (rule round64_error)
  have a1: "\<bar>real_of_int k / 100\<bar> / 2 ^ 53 \<le> 1 / 2 ^ 53"
    using kr by (simp add: divide_right_mono)
  have a2: "\<bar>x * 100\<bar> / 2 ^ 53 \<le> 100 / 2 ^ 53"
    using assms by (simp add: divide_right_mono)
  have d1: "fdiv (real_of_int k) 100 - real_of_int k / 100 \<le> 1 / 2 ^ 53"
    "real_of_int k / 100 - fdiv (real_of_int k) 100 \<le> 1 / 2 ^ 53"
    using qe a1 by linarith+
  have d2: "p - x * 100 \<le> 100 / 2 ^ 53" "x * 100 - p \<le> 100 / 2 ^ 53"
    using pe a2 by linarith+
  define u :: real where "u = 1 / 2 ^ 53"
  have u: "(1::real) / 2 ^ 53 = u" "(100::real) / 2 ^ 53 = 100 * u" "(1::real) / 2 ^ 52 = 2 * u"
    by (simp_all add: u_def)
  have "fdiv (real_of_int k) 100 - x \<le> 1 / 200 + 1 / 2 ^ 52"
    "x - fdiv (real_of_int k) 100 \<le> 1 / 200 + 1 / 2 ^ 52"
    using d1 d2 klo khi unfolding u by linarith+
  then have e: "\<bar>round2 x - x\<bar> \<le> 1 / 200 + 1 / 2 ^ 52" unfolding r by linarith
  from k0 k1 q e show ?thesis unfolding r k_def p_def by blast
qed

lemma response_members:
  assumes "getRecommendationsResponse now store uid limit = Inr rs" and "r \<in> set rs"
  shows "\<exists>u c. find (\<lambda>u. user_id u = uid) (users store) = Some u \<and> c \<in> set (articles store)
           \<and> article r = c
           \<and> RecommendationScore.score r
               = round2 (RecommendationScore.score (calculateRecommendationScore now store u c))"
proof (cases "find (\<lambda>u. user_id u = uid) (users store)")
  case None
  with assms(1) show ?thesis
    by (simp add: getRecommendationsResponse_def getRecommendations_def)
next
  case (Some u)
  let ?cands = "queryLimit (limit * 2)
                  (filter (\<lambda>a. article_id a \<notin> set (map articleId (filter (\<lambda>i. userId i = uid) (interactions store))))
                     (articles store))"
  let ?fmt = "\<lambda>r. \<lparr>article = article r, score = round2 (RecommendationScore.score r), reasons = reasons r\<rparr>"
  have sub: "set ?cands \<subseteq> set (articles store)"
    by (auto simp: queryLimit_def dest: in_set_takeD)
  from assms(1) Some have rs: "rs = (if length ?cands = 0 then []
      else map ?fmt (take limit (sort_key (\<lambda>r. - RecommendationScore.score r)
                                   (map (calculateRecommendationScore now store u) ?cands))))"
    by (auto simp: getRecommendationsResponse_def getRecommendations_def Let_def split: if_splits)
  with assms(2) obtain x where x: "r = ?fmt x"
      "x \<in> set (take limit (sort_key (\<lambda>r. - RecommendationScore.score r)
                               (map (calculateRecommendationScore now store u) ?cands)))"
    by (auto split: if_splits)
  from x(2) have "x \<in> set (map (calculateRecommendationScore now store u) ?cands)"
    by (metis in_set_takeD set_sort)
  then obtain c where c: "c \<in> set ?cands" "x = calculateRecommendationScore now store u c" by auto
  have "article x = c" using c(2) by (simp add: calculateRecommendationScore_def Let_def)
  with x(1) c sub Some show ?thesis by auto
qed

text \<open>The distance between the sums on doubles and the exact sums.\<close>

lemma literal_error:
  assumes "0 \<le> c" and "c \<le> 1"
  shows "\<bar>round64 c - c\<bar> \<le> 1 / 2 ^ 53"
proof -
  have "\<bar>c\<bar> / 2 ^ 53 \<le> 1 / 2 ^ 53" using assms by (simp add: divide_right_mono)
  with round64_error[of c] show ?thesis by linarith
qed

lemma term_error:
  assumes "0 \<le> x" and "x \<le> 1" and "0 \<le> c" and "c \<le> 1"
  shows "0 \<le> fmul x (round64 c) \<and> fmul x (round64 c) \<le> 1
         \<and> \<bar>fmul x (round64 c) - c * x\<bar> \<le> 2 / 2 ^ 53"
proof -
  define L where "L = round64 c"
  define u :: real where "u = 1 / 2 ^ 53"
  have u: "(1::real) / 2 ^ 53 = u" "(2::real) / 2 ^ 53 = 2 * u" by (simp_all add: u_def)
  have L: "0 \<le> L" "L \<le> 1" using literal_unit[OF assms(3,4)] by (simp_all add: L_def)
  have Le: "\<bar>L - c\<bar> \<le> u" using literal_error[OF assms(3,4)] unfolding L_def u .
  have p: "0 \<le> x * L" "x * L \<le> 1" using assms(1,2) L by (simp_all add: mult_le_one)
  have r: "0 \<le> fmul x L" "fmul x L \<le> 1"
    unfolding fmul_def using p by (simp_all add: round64_nonneg round64_le_one)
  have "\<bar>x * L\<bar> / 2 ^ 53 \<le> 1 / 2 ^ 53" using p by (simp add: divide_right_mono)
  with round64_error[of "x * L"] have e1: "\<bar>fmul x L - x * L\<bar> \<le> u"
    unfolding fmul_def u by linarith
  have "\<bar>x * L - c * x\<bar> = \<bar>x\<bar> * \<bar>L - c\<bar>" by (simp add: abs_mult[symmetric] algebra_simps)
  also have "\<dots> \<le> 1 * u" using assms(1,2) Le by (intro mult_mono) simp_all
  finally have e2: "\<bar>x * L - c * x\<bar> \<le> u" by simp
  from e1 e2 have "\<bar>fmul x L - c * x\<bar> \<le> 2 * u" by linarith
  with r show ?thesis unfolding L_def u by simp
qed

lemma add_error:
  assumes "0 \<le> s" and "s \<le> real k" and "0 \<le> t" and "t \<le> 1" and "Suc k < 2 ^ 53"
  shows "0 \<le> fadd s t \<and> fadd s t \<le> real (Suc k)
         \<and> \<bar>fadd s t - (s + t)\<bar> \<le> real (Suc k) / 2 ^ 53"
proof -
  have lo: "0 \<le> fadd s t" using assms(1,3) by (rule fadd_nonneg)
  have b: "s + t \<le> real (Suc k)" using assms(2,4) by simp
  then have "round64 (s + t) \<le> round64 (real (Suc k))" by (rule round64_mono)
  then have hi: "fadd s t \<le> real (Suc k)" unfolding fadd_def round64_of_nat[OF assms(5)] .
  have "\<bar>s + t\<bar> \<le> real (Suc k)" using b assms(1,3) by simp
  then have "\<bar>s + t\<bar> / 2 ^ 53 \<le> real (Suc k) / 2 ^ 53" by (simp add: divide_right_mono)
  with round64_error[of "s + t"] have "\<bar>fadd s t - (s + t)\<bar> \<le> real (Suc k) / 2 ^ 53"
    unfolding fadd_def by linarith
  with lo hi show ?thesis by blast
qed

lemma weighted_sum_error:
  assumes "0 \<le> i \<and> i \<le> 1" and "0 \<le> p \<and> p \<le> 1" and "0 \<le> f \<and> f \<le> 1" and "0 \<le> a \<and> a \<le> 1"
  shows "\<bar>fadd (fadd (fadd (fadd 0 (fmul i (round64 0.4))) (fmul p (round64 0.3)))
               (fmul f (round64 0.2))) (fmul a (round64 0.1))
          - (0.4 * i + 0.3 * p + 0.2 * f + 0.1 * a)\<bar> \<le> 1 / 2 ^ 48"
proof -
  define u :: real where "u = 1 / 2 ^ 53"
  have u: "(2::real) / 2 ^ 53 = 2 * u" "(1::real) / 2 ^ 48 = 32 * u"
    "real (Suc 0) / 2 ^ 53 = u" "real (Suc 1) / 2 ^ 53 = 2 * u"
    "real (Suc 2) / 2 ^ 53 = 3 * u" "real (Suc 3) / 2 ^ 53 = 4 * u"
    by (simp_all add: u_def)
  have u0: "0 \<le> u" by (simp add: u_def)
  define t1 where "t1 = fmul i (round64 0.4)"
  define t2 where "t2 = fmul p (round64 0.3)"
  define t3 where "t3 = fmul f (round64 0.2)"
  define t4 where "t4 = fmul a (round64 0.1)"
  have t1: "0 \<le> t1" "t1 \<le> 1" "\<bar>t1 - 0.4 * i\<bar> \<le> 2 * u"
    using term_error[of i "0.4"] assms(1) unfolding t1_def u by simp_all
  have t2: "0 \<le> t2" "t2 \<le> 1" "\<bar>t2 - 0.3 * p\<bar> \<le> 2 * u"
    using term_error[of p "0.3"] assms(2) unfolding t2_def u by simp_all
  have t3: "0 \<le> t3" "t3 \<le> 1" "\<bar>t3 - 0.2 * f\<bar> \<le> 2 * u"
    using term_error[of f "0.2"] assms(3) unfolding t3_def u by simp_all
  have t4: "0 \<le> t4" "t4 \<le> 1" "\<bar>t4 - 0.1 * a\<bar> \<le> 2 * u"
    using term_error[of a "0.1"] assms(4) unfolding t4_def u by simp_all
  define s1 where "s1 = fadd 0 t1"
  define s2 where "s2 = fadd s1 t2"
  define s3 where "s3 = fadd s2 t3"
  define s4 where "s4 = fadd s3 t4"
  have s1: "0 \<le> s1" "s1 \<le> 1" "\<bar>s1 - (0 + t1)\<bar> \<le> u"
    using add_error[of 0 0 t1] t1(1,2) unfolding s1_def u by simp_all
  have s2: "0 \<le> s2" "s2 \<le> 2" "\<bar>s2 - (s1 + t2)\<bar> \<le> 2 * u"
    using add_error[of s1 1 t2] s1(1,2) t2(1,2) unfolding s2_def u by simp_all
  have s3: "0 \<le> s3" "s3 \<le> 3" "\<bar>s3 - (s2 + t3)\<bar> \<le> 3 * u"
    using add_error[of s2 2 t3] s2(1,2) t3(1,2) unfolding s3_def u by simp_all
  have s4: "\<bar>s4 - (s3 + t4)\<bar> \<le> 4 * u"
    using add_error[of s3 3 t4] s3(1,2) t4(1,2) unfolding s4_def u by simp_all
  have "\<bar>s4 - (0.4 * i + 0.3 * p + 0.2 * f + 0.1 * a)\<bar> \<le> 32 * u"
    using t1(3) t2(3) t3(3) t4(3) s1(3) s2(3) s3(3) s4 u0 by linarith
  then show ?thesis unfolding s4_def s3_def s2_def s1_def t1_def t2_def t3_def t4_def u .
qed

lemma score_error:
  "\<bar>RecommendationScore.score (calculateRecommendationScore now store user a)
     - min (0.4 * calculateInterestScore (interests user) (tags a)
            + 0.3 * calculatePopularityScore store (article_id a)
            + 0.2 * calculateFreshnessScore now (Article.createdAt a)
            + 0.1 * calculateAuthorScore store (author a)) 1\<bar> \<le> 1 / 2 ^ 48"
proof -
  note e = weighted_sum_error[OF interest_range[of "interests user" "tags a"]
      popularity_range[of store "article_id a"] freshness_range[of now "Article.createdAt a"]
      author_range[of store "author a"]]
  have m: "\<bar>min x 1 - min y 1\<bar> \<le> \<bar>x - y\<bar>" for x y :: real by linarith
  show ?thesis unfolding score_eq using e m order_trans by blast
qed

lemma foldl_fadd_error:
  assumes "\<And>x. x \<in> set xs \<Longrightarrow> 0 \<le> x \<and> x \<le> 1"
    and "0 \<le> a" and "a \<le> real k" and "k + length xs < 2 ^ 53"
  shows "\<bar>foldl (\<lambda>total x. fadd total x) a xs - (a + sum_list xs)\<bar>
           \<le> real (length xs * (k + length xs)) / 2 ^ 53"
  using assms
proof (induction xs arbitrary: a k)
  case Nil
  then show ?case by simp
next
  case (Cons x xs)
  have x: "0 \<le> x" "x \<le> 1" using Cons.prems(1)[of x] by simp_all
  have k: "Suc k < 2 ^ 53" using Cons.prems(4) by simp
  note s = add_error[OF Cons.prems(2,3) x k]
  have lo: "0 \<le> fadd a x" and hi: "fadd a x \<le> real (Suc k)"
    and e: "\<bar>fadd a x - (a + x)\<bar> \<le> real (Suc k) / 2 ^ 53" using s by blast+
  have ih: "\<bar>foldl (\<lambda>total x. fadd total x) (fadd a x) xs - (fadd a x + sum_list xs)\<bar>
           \<le> real (length xs * (Suc k + length xs)) / 2 ^ 53"
    using Cons.prems(1,4) by (intro Cons.IH[OF _ lo hi]) simp_all
  have "Suc k + length xs * (Suc k + length xs) \<le> length (x # xs) * (k + length (x # xs))"
    by simp
  then have "real (Suc k + length xs * (Suc k + length xs))
           \<le> real (length (x # xs) * (k + length (x # xs)))"
    by (simp only: of_nat_le_iff)
  then have "real (Suc k + length xs * (Suc k + length xs)) / 2 ^ 53
           \<le> real (length (x # xs) * (k + length (x # xs))) / 2 ^ 53"
    by (simp only: divide_right_mono zero_le_power zero_le_numeral)
  moreover have "real (Suc k + length xs * (Suc k + length xs)) / 2 ^ 53
      = real (Suc k) / 2 ^ 53 + real (length xs * (Suc k + length xs)) / 2 ^ 53"
    by (simp only: of_nat_add add_divide_distrib)
  ultimately have "\<bar>foldl (\<lambda>total x. fadd total x) (fadd a x) xs - (a + x + sum_list xs)\<bar>
           \<le> real (length (x # xs) * (k + length (x # xs))) / 2 ^ 53"
    using e ih by linarith
  then show ?case by (simp add: add.assoc)
qed

lemma author_average_error:
  assumes "filter (\<lambda>x. author x = a) (articles store) \<noteq> []"
  shows "\<bar>calculateAuthorScore store a
          - sum_list (map (\<lambda>x. calculatePopularityScore store (article_id x))
                        (take 10 (filter (\<lambda>x. author x = a) (articles store))))
            / real (length (take 10 (filter (\<lambda>x. author x = a) (articles store))))\<bar>
         \<le> 1 / 2 ^ 46"
proof -
  let ?xs = "take 10 (filter (\<lambda>x. author x = a) (articles store))"
  let ?ps = "map (\<lambda>x. calculatePopularityScore store (article_id x)) ?xs"
  define S where "S = foldl (\<lambda>total x. fadd total x) 0 ?ps"
  define T where "T = sum_list ?ps"
  define n where "n = length ?ps"
  define u :: real where "u = 1 / 2 ^ 53"
  have u0: "0 \<le> u" by (simp add: u_def)
  have ne: "?xs \<noteq> []" using assms by simp
  have n1: "1 \<le> n" using ne unfolding n_def by (cases ?xs) simp_all
  have n10: "n \<le> 10" unfolding n_def by simp
  have rn: "1 \<le> real n" "real n \<le> 10" using n1 n10 by simp_all
  have unit: "\<And>x. x \<in> set ?ps \<Longrightarrow> 0 \<le> x \<and> x \<le> 1" by (auto simp: popularity_range)
  have small: "(0::nat) + length ?ps < 2 ^ 53" using n10 unfolding n_def by simp
  have b: "0 \<le> S" "S \<le> real n"
    using foldl_fadd_bound[OF unit _ _ small, of 0] unfolding S_def n_def by simp_all
  have "\<bar>S - (0 + T)\<bar> \<le> real (n * (0 + n)) / 2 ^ 53"
    using foldl_fadd_error[OF unit _ _ small, of 0] unfolding S_def T_def n_def by simp
  moreover have "n * (0 + n) \<le> 100" using n10 by (simp add: mult_mono[of n 10 n 10, simplified])
  then have "real (n * (0 + n)) \<le> real 100" by (simp only: of_nat_le_iff)
  then have "real (n * (0 + n)) / 2 ^ 53 \<le> 100 * u" by (simp add: u_def)
  ultimately have st: "\<bar>S - T\<bar> \<le> 100 * u" by simp
  have "\<bar>S / real n - T / real n\<bar> = \<bar>S - T\<bar> / real n"
    using rn by (simp add: diff_divide_distrib[symmetric])
  also have "\<dots> \<le> \<bar>S - T\<bar> / 1" using rn by (intro divide_left_mono) simp_all
  finally have d1: "\<bar>S / real n - T / real n\<bar> \<le> 100 * u" using st by simp
  have q: "0 \<le> S / real n" "S / real n \<le> 1" using b rn by simp_all
  then have "\<bar>S / real n\<bar> / 2 ^ 53 \<le> 1 / 2 ^ 53" by (simp add: divide_right_mono)
  with round64_error[of "S / real n"] have d2: "\<bar>fdiv S (real n) - S / real n\<bar> \<le> u"
    unfolding fdiv_def u_def by linarith
  have "\<bar>fdiv S (real n) - T / real n\<bar> \<le> 128 * u" using d1 d2 u0 by linarith
  moreover have "128 * u = 1 / 2 ^ 46" by (simp add: u_def)
  moreover have "calculateAuthorScore store a = fdiv S (real n)"
    unfolding authorScore_eq Let_def S_def n_def using ne by (simp del: length_take)
  ultimately show ?thesis unfolding T_def n_def by (simp del: length_take)
qed

text \<open>The roundings that occur in the scores of the sample stores.\<close>

lemma score_dbl_1: "round64 (2 / 5) = 3602879701896397 / 9007199254740992"
  by (rule round64_value[where e = "- 2" and f = 7205759403792793]) simp_all

lemma score_dbl_2: "round64 (3 / 10) = 5404319552844595 / 18014398509481984"
  by (rule round64_value[where e = "- 2" and f = 5404319552844595]) simp_all

lemma score_dbl_3: "round64 (1 / 5) = 3602879701896397 / 18014398509481984"
  by (rule round64_value[where e = "- 3" and f = 7205759403792793]) simp_all

lemma score_dbl_4: "round64 (1 / 10) = 3602879701896397 / 36028797018963968"
  by (rule round64_value[where e = "- 4" and f = 7205759403792793]) simp_all

lemma score_dbl_5: "round64 (7 / 10) = 3152519739159347 / 4503599627370496"
  by (rule round64_value[where e = "- 1" and f = 6305039478318694]) simp_all

lemma score_dbl_6: "round64 (4 / 5) = 3602879701896397 / 4503599627370496"
  by (rule round64_value[where e = "- 1" and f = 7205759403792793]) simp_all

lemma score_dbl_7: "round64 (9 / 10) = 8106479329266893 / 9007199254740992"
  by (rule round64_value[where e = "- 1" and f = 8106479329266892]) simp_all

lemma score_dbl_8: "fdiv 1 1 = 1"
  unfolding fdiv_def by (rule round64_value[where e = "0" and f = 4503599627370496]) simp_all

lemma score_dbl_9: "fdiv 50 100 = 1 / 2"
  unfolding fdiv_def by (rule round64_value[where e = "- 1" and f = 4503599627370496]) simp_all

lemma score_dbl_10: "fdiv 172800000 86400000 = 2"
  unfolding fdiv_def by (rule round64_value[where e = "1" and f = 4503599627370496]) simp_all

lemma score_dbl_11: "fadd 0 (1 / 2) = 1 / 2"
  unfolding fadd_def by (rule round64_value[where e = "- 1" and f = 4503599627370496]) simp_all

lemma score_dbl_12: "fdiv (1 / 2) 1 = 1 / 2"
  unfolding fdiv_def by (rule round64_value[where e = "- 1" and f = 4503599627370496]) simp_all

lemma score_dbl_13: "fmul 1 (3602879701896397 / 9007199254740992) = 3602879701896397 / 9007199254740992"
  unfolding fmul_def by (rule round64_value[where e = "- 2" and f = 7205759403792794]) simp_all

lemma score_dbl_14: "fadd 0 (3602879701896397 / 9007199254740992) = 3602879701896397 / 9007199254740992"
  unfolding fadd_def by (rule round64_value[where e = "- 2" and f = 7205759403792794]) simp_all

lemma score_dbl_15: "fmul (1 / 2) (5404319552844595 / 18014398509481984) = 5404319552844595 / 36028797018963968"
  unfolding fmul_def by (rule round64_value[where e = "- 3" and f = 5404319552844595]) simp_all

lemma score_dbl_16: "fadd (3602879701896397 / 9007199254740992) (5404319552844595 / 36028797018963968) = 2476979795053773 / 4503599627370496"
  unfolding fadd_def by (rule round64_value[where e = "- 1" and f = 4953959590107545]) simp_all

lemma score_dbl_17: "fmul (8106479329266893 / 9007199254740992) (3602879701896397 / 18014398509481984) = 6485183463413515 / 36028797018963968"
  unfolding fmul_def by (rule round64_value[where e = "- 3" and f = 6485183463413514]) simp_all

lemma score_dbl_18: "fadd (2476979795053773 / 4503599627370496) (6485183463413515 / 36028797018963968) = 6575255455960925 / 9007199254740992"
  unfolding fadd_def by (rule round64_value[where e = "- 1" and f = 6575255455960924]) simp_all

lemma score_dbl_19: "fmul (1 / 2) (3602879701896397 / 36028797018963968) = 3602879701896397 / 72057594037927936"
  unfolding fmul_def by (rule round64_value[where e = "- 5" and f = 7205759403792794]) simp_all

lemma score_dbl_20: "fadd (6575255455960925 / 9007199254740992) (3602879701896397 / 72057594037927936) = 7025615418697975 / 9007199254740992"
  unfolding fadd_def by (rule round64_value[where e = "- 1" and f = 7025615418697974]) simp_all

lemma score_dbl_21: "fmul (7025615418697975 / 9007199254740992) 100 = 5488762045857793 / 70368744177664"
  unfolding fmul_def by (rule round64_value[where e = "6" and f = 5488762045857792]) simp_all

lemma score_dbl_22: "fdiv 78 100 = 3512807709348987 / 4503599627370496"
  unfolding fdiv_def by (rule round64_value[where e = "- 1" and f = 7025615418697973]) simp_all

lemma score_dbl_23: "fdiv 0 100 = 0"
  by (simp add: fdiv_def round64_zero)

lemma score_dbl_24: "fdiv 864000000 86400000 = 10"
  unfolding fdiv_def by (rule round64_value[where e = "3" and f = 5629499534213120]) simp_all

lemma score_dbl_25: "fdiv 30 100 = 5404319552844595 / 18014398509481984"
  unfolding fdiv_def by (rule round64_value[where e = "- 2" and f = 5404319552844595]) simp_all

lemma score_dbl_26: "fadd 0 0 = 0"
  by (simp add: fadd_def round64_zero)

lemma score_dbl_27: "fadd 0 (5404319552844595 / 18014398509481984) = 5404319552844595 / 18014398509481984"
  unfolding fadd_def by (rule round64_value[where e = "- 2" and f = 5404319552844595]) simp_all

lemma score_dbl_28: "fdiv (5404319552844595 / 18014398509481984) 2 = 5404319552844595 / 36028797018963968"
  unfolding fdiv_def by (rule round64_value[where e = "- 3" and f = 5404319552844595]) simp_all

lemma score_dbl_29: "fmul 0 (3602879701896397 / 9007199254740992) = 0"
  by (simp add: fmul_def round64_zero)

lemma score_dbl_30: "fmul 0 (5404319552844595 / 18014398509481984) = 0"
  by (simp add: fmul_def round64_zero)

lemma score_dbl_31: "fmul (3152519739159347 / 4503599627370496) (3602879701896397 / 18014398509481984) = 5044031582654955 / 36028797018963968"
  unfolding fmul_def by (rule round64_value[where e = "- 3" and f = 5044031582654955]) simp_all

lemma score_dbl_32: "fadd 0 (5044031582654955 / 36028797018963968) = 5044031582654955 / 36028797018963968"
  unfolding fadd_def by (rule round64_value[where e = "- 3" and f = 5044031582654955]) simp_all

lemma score_dbl_33: "fmul (5404319552844595 / 36028797018963968) (3602879701896397 / 36028797018963968) = 1080863910568919 / 72057594037927936"
  unfolding fmul_def by (rule round64_value[where e = "- 7" and f = 8646911284551352]) simp_all

lemma score_dbl_34: "fadd (5044031582654955 / 36028797018963968) (1080863910568919 / 72057594037927936) = 2792231768969707 / 18014398509481984"
  unfolding fadd_def by (rule round64_value[where e = "- 3" and f = 5584463537939414]) simp_all

lemma score_dbl_35: "fmul (2792231768969707 / 18014398509481984) 100 = 4362862139015167 / 281474976710656"
  unfolding fmul_def by (rule round64_value[where e = "3" and f = 8725724278030334]) simp_all

lemma score_dbl_36: "fdiv 15 100 = 5404319552844595 / 36028797018963968"
  unfolding fdiv_def by (rule round64_value[where e = "- 3" and f = 5404319552844595]) simp_all

lemma score_dbl_37: "fdiv 70 100 = 3152519739159347 / 4503599627370496"
  unfolding fdiv_def by (rule round64_value[where e = "- 1" and f = 6305039478318694]) simp_all

lemma score_dbl_38: "fadd 0 (3152519739159347 / 4503599627370496) = 3152519739159347 / 4503599627370496"
  unfolding fadd_def by (rule round64_value[where e = "- 1" and f = 6305039478318694]) simp_all

lemma score_dbl_39: "fdiv (3152519739159347 / 4503599627370496) 2 = 3152519739159347 / 9007199254740992"
  unfolding fdiv_def by (rule round64_value[where e = "- 2" and f = 6305039478318694]) simp_all

lemma score_dbl_40: "fmul (3152519739159347 / 9007199254740992) (3602879701896397 / 36028797018963968) = 5044031582654955 / 144115188075855872"
  unfolding fmul_def by (rule round64_value[where e = "- 5" and f = 5044031582654955]) simp_all

lemma score_dbl_41: "fadd (5044031582654955 / 36028797018963968) (5044031582654955 / 144115188075855872) = 3152519739159347 / 18014398509481984"
  unfolding fadd_def by (rule round64_value[where e = "- 3" and f = 6305039478318693]) simp_all

lemma score_dbl_42: "fmul (3152519739159347 / 18014398509481984) 100 = 35 / 2"
  unfolding fmul_def by (rule round64_value[where e = "4" and f = 4925812092436479]) simp_all

lemma score_dbl_43: "fdiv 18 100 = 3242591731706757 / 18014398509481984"
  unfolding fdiv_def by (rule round64_value[where e = "- 3" and f = 6485183463413514]) simp_all

lemmas score_dbl = score_dbl_1 score_dbl_2 score_dbl_3 score_dbl_4 score_dbl_5 score_dbl_6 score_dbl_7 score_dbl_8 score_dbl_9 score_dbl_10 score_dbl_11 score_dbl_12 score_dbl_13 score_dbl_14 score_dbl_15 score_dbl_16 score_dbl_17 score_dbl_18 score_dbl_19 score_dbl_20 score_dbl_21 score_dbl_22 score_dbl_23 score_dbl_24 score_dbl_25 score_dbl_26 score_dbl_27 score_dbl_28 score_dbl_29 score_dbl_30 score_dbl_31 score_dbl_32 score_dbl_33 score_dbl_34 score_dbl_35 score_dbl_36 score_dbl_37 score_dbl_38 score_dbl_39 score_dbl_40 score_dbl_41 score_dbl_42 score_dbl_43

lemma sample_user: "find (\<lambda>u. user_id u = 1) (users sampleStore) = Some sampleUser"
  by code_simp

lemma sample_candidates:
  "queryLimit (5 * 2)
     (filter (\<lambda>a. article_id a \<notin> set (map articleId (filter (\<lambda>i. userId i = 1) (interactions sampleStore))))
        (articles sampleStore)) = [sampleArticle]"
  by code_simp

lemma sample_matching: "getMatchingInterests (interests sampleUser) (tags sampleArticle) = [''ai'']"
  by code_simp

lemma sample_matching_count:
  "length (filter (\<lambda>interest. \<exists>tag \<in> set (tags sampleArticle). matchesTag interest tag)
             (interests sampleUser)) = 1"
  by code_simp

lemma sample_interest: "calculateInterestScore (interests sampleUser) (tags sampleArticle) = 1"
  unfolding calculateInterestScore_def sample_matching_count
  by (simp add: sampleUser_def sampleArticle_def score_dbl)

lemma sample_total: "weightedTotal sampleStore (article_id sampleArticle) = 50"
  by code_simp

lemma sample_popularity: "calculatePopularityScore sampleStore (article_id sampleArticle) = 1 / 2"
  unfolding calculatePopularityScore_def sample_total by (simp add: score_dbl)

lemma sample_freshness: "calculateFreshnessScore sampleNow (Article.createdAt sampleArticle) = 8106479329266893 / 9007199254740992"
  by (simp add: calculateFreshnessScore_def Let_def sampleNow_def sampleArticle_def score_dbl)

lemma sample_authored:
  "queryLimit 10 (filter (\<lambda>x. author x = author sampleArticle) (articles sampleStore)) = [sampleArticle]"
  by code_simp

lemma sample_author: "calculateAuthorScore sampleStore (author sampleArticle) = 1 / 2"
  unfolding calculateAuthorScore_def sample_authored
  by (simp add: Let_def sample_popularity score_dbl)

lemma sample_score:
  "calculateRecommendationScore sampleNow sampleStore sampleUser sampleArticle =
     \<lparr>article = sampleArticle, score = 7025615418697975 / 9007199254740992, reasons = [''Matches your interests: ai'', ''Recent content'']\<rparr>"
  unfolding calculateRecommendationScore_def sample_interest sample_popularity sample_freshness sample_author
  by (simp add: Let_def score_dbl sample_matching)

lemma sample_recommendations:
  "getRecommendations sampleNow sampleStore 1 5 =
     Inr [\<lparr>article = sampleArticle, score = 7025615418697975 / 9007199254740992, reasons = [''Matches your interests: ai'', ''Recent content'']\<rparr>]"
  unfolding getRecommendations_def Let_def sample_user sample_candidates
  by (simp add: sample_score)

lemma sample_rounded: "round2 (7025615418697975 / 9007199254740992) = 3512807709348987 / 4503599627370496"
  by (simp add: round2_def score_dbl)

lemma sample_response:
  "getRecommendationsResponse sampleNow sampleStore 1 5 =
     Inr [\<lparr>article = sampleArticle, score = 3512807709348987 / 4503599627370496, reasons = [''Matches your interests: ai'', ''Recent content'']\<rparr>]"
  unfolding getRecommendationsResponse_def sample_recommendations
  by (simp add: sample_rounded)

lemma shares6_user: "find (\<lambda>u. user_id u = 1) (users (sharesStore 6)) = Some quietUser"
  by code_simp

lemma shares6_candidates:
  "queryLimit (5 * 2)
     (filter (\<lambda>a. article_id a \<notin> set (map articleId (filter (\<lambda>i. userId i = 1) (interactions (sharesStore 6)))))
        (articles (sharesStore 6))) = [candidateArticle]"
  by code_simp

lemma shares6_interest: "calculateInterestScore (interests quietUser) (tags candidateArticle) = 0"
  by (simp add: calculateInterestScore_def quietUser_def)

lemma shares6_total: "weightedTotal (sharesStore 6) (article_id candidateArticle) = 0"
  by code_simp

lemma shares6_popularity: "calculatePopularityScore (sharesStore 6) (article_id candidateArticle) = 0"
  unfolding calculatePopularityScore_def shares6_total by (simp add: score_dbl)

lemma shares6_freshness: "calculateFreshnessScore sampleNow (Article.createdAt candidateArticle) = 3152519739159347 / 4503599627370496"
  by (simp add: calculateFreshnessScore_def Let_def sampleNow_def candidateArticle_def score_dbl)

lemma shares6_authored:
  "queryLimit 10 (filter (\<lambda>x. author x = author candidateArticle) (articles (sharesStore 6))) = [candidateArticle, sharedByMany]"
  by code_simp

lemma shares6_total_sharedByMany: "weightedTotal (sharesStore 6) (article_id sharedByMany) = 30"
  by code_simp

lemma shares6_popularity_sharedByMany: "calculatePopularityScore (sharesStore 6) (article_id sharedByMany) = 5404319552844595 / 18014398509481984"
  unfolding calculatePopularityScore_def shares6_total_sharedByMany by (simp add: score_dbl)

lemma shares6_author: "calculateAuthorScore (sharesStore 6) (author candidateArticle) = 5404319552844595 / 36028797018963968"
  unfolding calculateAuthorScore_def shares6_authored
  by (simp add: Let_def shares6_popularity shares6_popularity_sharedByMany score_dbl)

lemma shares6_score:
  "calculateRecommendationScore sampleNow (sharesStore 6) quietUser candidateArticle =
     \<lparr>article = candidateArticle, score = 2792231768969707 / 18014398509481984, reasons = [''General recommendation'']\<rparr>"
  unfolding calculateRecommendationScore_def shares6_interest shares6_popularity shares6_freshness shares6_author
  by (simp add: Let_def score_dbl)

lemma shares6_recommendations:
  "getRecommendations sampleNow (sharesStore 6) 1 5 =
     Inr [\<lparr>article = candidateArticle, score = 2792231768969707 / 18014398509481984, reasons = [''General recommendation'']\<rparr>]"
  unfolding getRecommendations_def Let_def shares6_user shares6_candidates
  by (simp add: shares6_score)

lemma shares6_rounded: "round2 (2792231768969707 / 18014398509481984) = 5404319552844595 / 36028797018963968"
  by (simp add: round2_def score_dbl)

lemma shares6_response:
  "getRecommendationsResponse sampleNow (sharesStore 6) 1 5 =
     Inr [\<lparr>article = candidateArticle, score = 5404319552844595 / 36028797018963968, reasons = [''General recommendation'']\<rparr>]"
  unfolding getRecommendationsResponse_def shares6_recommendations
  by (simp add: shares6_rounded)

lemma shares14_user: "find (\<lambda>u. user_id u = 1) (users (sharesStore 14)) = Some quietUser"
  by code_simp

lemma shares14_candidates:
  "queryLimit (5 * 2)
     (filter (\<lambda>a. article_id a \<notin> set (map articleId (filter (\<lambda>i. userId i = 1) (interactions (sharesStore 14)))))
        (articles (sharesStore 14))) = [candidateArticle]"
  by code_simp

lemma shares14_interest: "calculateInterestScore (interests quietUser) (tags candidateArticle) = 0"
  by (simp add: calculateInterestScore_def quietUser_def)

lemma shares14_total: "weightedTotal (sharesStore 14) (article_id candidateArticle) = 0"
  by code_simp

lemma shares14_popularity: "calculatePopularityScore (sharesStore 14) (article_id candidateArticle) = 0"
  unfolding calculatePopularityScore_def shares14_total by (simp add: score_dbl)

lemma shares14_freshness: "calculateFreshnessScore sampleNow (Article.createdAt candidateArticle) = 3152519739159347 / 4503599627370496"
  by (simp add: calculateFreshnessScore_def Let_def sampleNow_def candidateArticle_def score_dbl)

lemma shares14_authored:
  "queryLimit 10 (filter (\<lambda>x. author x = author candidateArticle) (articles (sharesStore 14))) = [candidateArticle, sharedByMany]"
  by code_simp

lemma shares14_total_sharedByMany: "weightedTotal (sharesStore 14) (article_id sharedByMany) = 70"
  by code_simp

lemma shares14_popularity_sharedByMany: "calculatePopularityScore (sharesStore 14) (article_id sharedByMany) = 3152519739159347 / 4503599627370496"
  unfolding calculatePopularityScore_def shares14_total_sharedByMany by (simp add: score_dbl)

lemma shares14_author: "calculateAuthorScore (sharesStore 14) (author candidateArticle) = 3152519739159347 / 9007199254740992"
  unfolding calculateAuthorScore_def shares14_authored
  by (simp add: Let_def shares14_popularity shares14_popularity_sharedByMany score_dbl)

lemma shares14_score:
  "calculateRecommendationScore sampleNow (sharesStore 14) quietUser candidateArticle =
     \<lparr>article = candidateArticle, score = 3152519739159347 / 18014398509481984, reasons = [''General recommendation'']\<rparr>"
  unfolding calculateRecommendationScore_def shares14_interest shares14_popularity shares14_freshness shares14_author
  by (simp add: Let_def score_dbl)

lemma shares14_recommendations:
  "getRecommendations sampleNow (sharesStore 14) 1 5 =
     Inr [\<lparr>article = candidateArticle, score = 3152519739159347 / 18014398509481984, reasons = [''General recommendation'']\<rparr>]"
  unfolding getRecommendations_def Let_def shares14_user shares14_candidates
  by (simp add: shares14_score)

lemma shares14_rounded: "round2 (3152519739159347 / 18014398509481984) = 3242591731706757 / 18014398509481984"
  by (simp add: round2_def score_dbl)

lemma shares14_response:
  "getRecommendationsResponse sampleNow (sharesStore 14) 1 5 =
     Inr [\<lparr>article = candidateArticle, score = 3242591731706757 / 18014398509481984, reasons = [''General recommendation'']\<rparr>]"
  unfolding getRecommendationsResponse_def shares14_recommendations
  by (simp add: shares14_rounded)

lemma shares6_spec:
  "spec_round2 (spec_recommendationScore sampleNow (sharesStore 6) quietUser candidateArticle) = 16 / 100"
  by code_simp

lemma shares14_spec:
  "spec_recommendationScore sampleNow (sharesStore 14) quietUser candidateArticle = 175 / 1000"
  by code_simp

lemma lone_total: "weightedTotal loneStore (article_id loneArticle) = 0"
  by code_simp

lemma lone_popularity: "calculatePopularityScore loneStore (article_id loneArticle) = 0"
  unfolding calculatePopularityScore_def lone_total by (simp add: fdiv_def round64_zero)

section \<open>Claims about the extractive summarizer\<close>

text \<open>
  Claim C7, as amended. The candidates are the pieces of the text between the maximal runs
  of \<open>.\<close>, \<open>!\<close> and \<open>?\<close>, each trimmed; together the pieces are the text without these
  three characters. A candidate is kept exactly when it is longer than 15 characters and
  contains at least 3 space characters (it splits on the space character into more than 3
  pieces); every other candidate is discarded, and the kept ones stay in their order.
\<close>

theorem splitIntoSentences_keeps:
  "splitIntoSentences text =
     filter (\<lambda>c. 15 < length c \<and> 3 \<le> count_list c (CHR '' ''))
       (map trim (split_regex isTerminal text))
   \<and> concat (split_regex isTerminal text) = filter (\<lambda>c. \<not> isTerminal c) text"
  unfolding splitIntoSentences_def length_split_char concat_split_regex
  by (simp add: Suc_le_eq less_Suc_eq_le)

text \<open>
  The claim as the specification words it fails twice on one text. \<open>We do it my way\<close> has
  15 characters and 5 words, so it is neither shorter than 15 characters nor of 3 or fewer
  words, and yet it is discarded. \<open>Tomorrow  morning maybe\<close> has 3 words, and it is kept,
  because its double space makes it split into 4 pieces.
\<close>

theorem splitIntoSentences_counterexample:
  "map trim (split_regex isTerminal ''We do it my way. Tomorrow  morning maybe.'')
     = [''We do it my way'', ''Tomorrow  morning maybe'', '''']
   \<and> \<not> spec_discards ''We do it my way''
   \<and> spec_discards ''Tomorrow  morning maybe''
   \<and> splitIntoSentences ''We do it my way. Tomorrow  morning maybe.''
       = [''Tomorrow  morning maybe'']"
  by code_simp






text \<open>
  Claim C10. A sentence whose filtered term list is empty has the score 0 at every index,
  the first and the second included: the quotient by the square root of the number of terms
  is not formed and the position bonus is not added.
\<close>

theorem empty_terms_score_zero:
  assumes "i < length sentences" and "termsOf nat_lib (sentences ! i) = []"
  shows "ScoredSentence.score (calculateSentenceScores nat_lib sentences ! i) = 0"
  using assms by (simp add: nth_calc scoreSentence_def)

theorem empty_terms_score_zero_witness:
  "1 < length sampleSentences \<and> termsOf sampleNatural (sampleSentences ! 1) = []
   \<and> ScoredSentence.score (calculateSentenceScores sampleNatural sampleSentences ! 1) = 0"
proof -
  have l: "1 < length sampleSentences" by (simp add: sampleSentences_def)
  have e: "termsOf sampleNatural (sampleSentences ! 1) = []" by code_simp
  from empty_terms_score_zero[OF l e] l e show ?thesis by blast
qed

section \<open>Claims about the validator and the provider chain\<close>

text \<open>
  Claim C6, as amended. The validator cleans the candidate that it is given, and for a
  source of fewer than \<open>2^50\<close> characters it accepts the candidate exactly when none of
  the five reasons for rejection holds of the text so cleaned: fewer than 20 characters; at
  least 80 percent of the length of the source; fewer than 10 words; \<open>error\<close> or
  \<open>failed\<close> in any case; \<open>undefined\<close>. The product of the length of the source and 0.8
  is a double, and for these lengths the test has the outcome of the exact one. For every
  source a candidate is rejected when its cleaned text contains \<open>undefined\<close>.
\<close>

theorem validator_rejects_iff:
  "(length originalContent < 2 ^ 50 \<longrightarrow>
      (isValidSummary s originalContent \<longleftrightarrow> \<not> spec_rejects (cleanSummary s) originalContent))
   \<and> ((\<exists>before after. cleanSummary s = before @ ''undefined'' @ after)
        \<longrightarrow> \<not> isValidSummary s originalContent)"
proof -
  let ?c = "cleanSummary s"
  have w: "10 \<le> length (split_char (CHR '' '') ?c) \<longleftrightarrow> \<not> spec_word_count ?c < 10"
    if "20 \<le> length ?c"
    using that by (auto simp: word_count_cleanSummary)
  have "isValidSummary s originalContent \<longleftrightarrow> \<not> spec_rejects ?c originalContent"
    if h: "length originalContent < 2 ^ 50"
    unfolding isValidSummary_exact[OF h] spec_rejects_def
    using w by (auto simp: not_less not_le)
  moreover have "str_includes ?c ''undefined'' \<longrightarrow> \<not> isValidSummary s originalContent"
    by (simp add: isValidSummary_def Let_def)
  ultimately show ?thesis unfolding str_includes_iff by blast
qed

theorem validator_rejects_iff_witness:
  "length (replicate 200 (CHR ''x'')) < 2 ^ 50
   \<and> cleanSummary ''[note] The result was undefined for nine of the ten sampled input files''
     = ''The result was '' @ ''undefined'' @ '' for nine of the ten sampled input files''
   \<and> \<not> isValidSummary ''[note] The result was undefined for nine of the ten sampled input files''
         (replicate 200 (CHR ''x''))
   \<and> spec_rejects
         (cleanSummary ''[note] The result was undefined for nine of the ten sampled input files'')
         (replicate 200 (CHR ''x''))"
proof -
  have l: "length (replicate 200 (CHR ''x'')) < 2 ^ 50" by simp
  have h: "cleanSummary ''[note] The result was undefined for nine of the ten sampled input files''
             = ''The result was '' @ ''undefined'' @ '' for nine of the ten sampled input files''"
    by code_simp
  then have "\<exists>before after.
      cleanSummary ''[note] The result was undefined for nine of the ten sampled input files''
        = before @ ''undefined'' @ after"
    by blast
  with validator_rejects_iff[of "replicate 200 (CHR ''x'')" "''[note] The result was undefined for nine of the ten sampled input files''"] h l
  show ?thesis by blast
qed

text \<open>
  The claim as the specification words it fails for a candidate that contains
  \<open>undefined\<close> only within a leading bracket tag. A provider cleans the response
  \<open>[a] [undefined] one two ... ten\<close> to the candidate \<open>[undefined] one two ... ten\<close>;
  the validator cleans the candidate again, to \<open>one two ... ten\<close>, and accepts it,
  although the candidate contains \<open>undefined\<close>.
\<close>

theorem validator_counterexample:
  "isValidSummary ''[undefined] one two three four five six seven eight nine ten''
     (replicate 200 (CHR ''x''))
   \<and> str_includes ''[undefined] one two three four five six seven eight nine ten'' ''undefined''
   \<and> cleanSummary ''[a] [undefined] one two three four five six seven eight nine ten''
       = ''[undefined] one two three four five six seven eight nine ten''
   \<and> cleanSummary ''[undefined] one two three four five six seven eight nine ten''
       = ''one two three four five six seven eight nine ten''"
proof -
  have l: "length (replicate 200 (CHR ''x'')) < 2 ^ 50" by simp
  have a: "isValidSummary ''[undefined] one two three four five six seven eight nine ten''
             (replicate 200 (CHR ''x''))"
    unfolding isValidSummary_exact[OF l] by code_simp
  have b: "str_includes ''[undefined] one two three four five six seven eight nine ten'' ''undefined''"
    by code_simp
  have c: "cleanSummary ''[a] [undefined] one two three four five six seven eight nine ten''
       = ''[undefined] one two three four five six seven eight nine ten''"
    by code_simp
  have d: "cleanSummary ''[undefined] one two three four five six seven eight nine ten''
       = ''one two three four five six seven eight nine ten''"
    by code_simp
  from a b c d show ?thesis by blast
qed

text \<open>
  Claim C1, as amended. When every attempt of the chain throws or is rejected by the
  validator, the result is the extractive summary, with the provider \<open>extractive\<close>, the
  model \<open>tf-idf\<close> and the method extractive; the chain itself never fails. The summary is
  not empty when the text has at least one sentence that passes the noise filter and
  \<open>maxSentences\<close> is at least 1; it is the empty string when no sentence passes the filter.
\<close>

theorem exhausted_providers_fall_back:
  assumes "allAttemptsFail env content config"
  shows "fst (generateBestSummary env nat_lib content config)
           = \<lparr>summary = generateSummary nat_lib content config, provider = ''extractive'',
              model = ''tf-idf'', summary_method = Extractive\<rparr>
       \<and> (splitIntoSentences content \<noteq> [] \<and> 1 \<le> maxSentencesOf config
            \<longrightarrow> generateSummary nat_lib content config \<noteq> [])
       \<and> (splitIntoSentences content = [] \<longrightarrow> generateSummary nat_lib content config = [])"
proof -
  from assms have "fst (tryProviders content config (providers env content config) []) = None"
    unfolding allAttemptsFail_def by (rule tryProviders_all_fail)
  then have "fst (generateBestSummary env nat_lib content config)
           = \<lparr>summary = generateSummary nat_lib content config, provider = ''extractive'',
              model = ''tf-idf'', summary_method = Extractive\<rparr>"
    by (cases "tryProviders content config (providers env content config) []")
       (simp add: generateBestSummary_def)
  then show ?thesis
    using generateSummary_nonempty generateSummary_empty by blast
qed

theorem exhausted_providers_fall_back_witness:
  "allAttemptsFail rejectedEnv sampleText defaultConfig
   \<and> provider (fst (generateBestSummary rejectedEnv sampleNatural sampleText defaultConfig)) = ''extractive''
   \<and> summary_method (fst (generateBestSummary rejectedEnv sampleNatural sampleText defaultConfig)) = Extractive
   \<and> summary (fst (generateBestSummary rejectedEnv sampleNatural sampleText defaultConfig)) \<noteq> []"
  using exhausted_providers_fall_back[OF rejected_all_fail, of sampleNatural]
    rejected_all_fail
  by (simp add: sampleText_sentences sampleConfig_max)

text \<open>
  The summary can be empty: a text of 70 characters in which no sentence passes the noise
  filter, with no provider available, gets the extractive method and the empty summary.
\<close>

theorem exhausted_providers_counterexample:
  "allAttemptsFail offlineEnv headlines defaultConfig
   \<and> summary_method (fst (generateBestSummary offlineEnv sampleNatural headlines defaultConfig)) = Extractive
   \<and> summary (fst (generateBestSummary offlineEnv sampleNatural headlines defaultConfig)) = []"
proof -
  have "fst (tryProviders headlines defaultConfig (providers offlineEnv headlines defaultConfig) []) = None"
    using offline_all_fail unfolding allAttemptsFail_def by (rule tryProviders_all_fail)
  then have "fst (generateBestSummary offlineEnv sampleNatural headlines defaultConfig)
           = \<lparr>summary = generateSummary sampleNatural headlines defaultConfig, provider = ''extractive'',
              model = ''tf-idf'', summary_method = Extractive\<rparr>"
    by (cases "tryProviders headlines defaultConfig (providers offlineEnv headlines defaultConfig) []")
       (simp add: generateBestSummary_def)
  then show ?thesis
    using offline_all_fail by (simp add: generateSummary_empty[OF headlines_sentences])
qed

text \<open>
  Claim C9. A summary supplied with the article whose trimmed text is not empty is returned
  trimmed, with \<open>generated\<close> false, the provider \<open>user-provided\<close> and the model
  \<open>none\<close>; no provider is invoked and the validator is not called (the trace of the call
  is empty), whatever the content and the supplied summary are.
\<close>

theorem user_summary_passes_through:
  assumes "trim e \<noteq> []"
  shows "generateSummaryForArticle env nat_lib content (Some e)
           = (\<lparr>summary = trim e, provider = ''user-provided'', model = ''none'',
               summary_method = Extractive, generated = False\<rparr>, [])"
proof -
  from assms have "e \<noteq> []" by (auto simp: trim_def)
  with assms show ?thesis by (simp add: generateSummaryForArticle_def)
qed

theorem user_summary_passes_through_witness:
  "trim ''  undefined error  '' \<noteq> []
   \<and> \<not> isValidSummary ''  undefined error  '' sampleText
   \<and> generateSummaryForArticle rejectedEnv sampleNatural sampleText (Some ''  undefined error  '')
       = (\<lparr>summary = ''undefined error'', provider = ''user-provided'', model = ''none'',
           summary_method = Extractive, generated = False\<rparr>, [])"
proof -
  have t: "trim ''  undefined error  '' = ''undefined error''" by code_simp
  then have h: "trim ''  undefined error  '' \<noteq> []" by simp
  have v: "\<not> isValidSummary ''  undefined error  '' sampleText"
    unfolding isValidSummary_exact[OF sampleText_short] by code_simp
  from user_summary_passes_through[OF h, of rejectedEnv sampleNatural sampleText] h v t
  show ?thesis by simp
qed

section \<open>Claims about the recommendation service\<close>

text \<open>
  Claim C4, as amended. The combined score is computed on doubles: the four signals are
  multiplied by the doubles nearest to 0.4, 0.3, 0.2 and 0.1 and added to 0 in the order
  interest, popularity, freshness, author, every product and every sum rounded to the
  nearest double, and the result is capped at 1. It lies between 0 and 1, and at most
  \<open>1/2^48\<close> away from the exact sum 0.4 interest + 0.3 popularity + 0.2 freshness +
  0.1 author, capped at 1. Every score that the controller returns is that of a stored
  article for the requesting user: it is the double quotient of \<open>k\<close> and 100, where
  \<open>k\<close> is the integer nearest to the double product of the combined score and 100 (a
  half going upwards) and lies between 0 and 100. The returned score lies between 0 and 1,
  and at most \<open>1/200 + 1/2^52\<close> away from the combined score.
\<close>

theorem recommendation_score_in_unit_interval:
  "RecommendationScore.score (calculateRecommendationScore now store user a) =
     min (fadd (fadd (fadd (fadd 0
            (fmul (calculateInterestScore (interests user) (tags a)) (round64 0.4)))
            (fmul (calculatePopularityScore store (article_id a)) (round64 0.3)))
            (fmul (calculateFreshnessScore now (Article.createdAt a)) (round64 0.2)))
            (fmul (calculateAuthorScore store (author a)) (round64 0.1))) 1
   \<and> \<bar>RecommendationScore.score (calculateRecommendationScore now store user a)
        - min (0.4 * calculateInterestScore (interests user) (tags a)
               + 0.3 * calculatePopularityScore store (article_id a)
               + 0.2 * calculateFreshnessScore now (Article.createdAt a)
               + 0.1 * calculateAuthorScore store (author a)) 1\<bar> \<le> 1 / 2 ^ 48
   \<and> 0 \<le> RecommendationScore.score (calculateRecommendationScore now store user a)
   \<and> RecommendationScore.score (calculateRecommendationScore now store user a) \<le> 1
   \<and> (getRecommendationsResponse now store uid limit = Inr rs \<and> r \<in> set rs \<longrightarrow>
        (\<exists>u c. find (\<lambda>u. user_id u = uid) (users store) = Some u \<and> c \<in> set (articles store)
           \<and> article r = c
           \<and> RecommendationScore.score r
               = fdiv (real_of_int \<lfloor>fmul (RecommendationScore.score (calculateRecommendationScore now store u c)) 100 + 1 / 2\<rfloor>) 100
           \<and> 0 \<le> \<lfloor>fmul (RecommendationScore.score (calculateRecommendationScore now store u c)) 100 + 1 / 2\<rfloor>
           \<and> \<lfloor>fmul (RecommendationScore.score (calculateRecommendationScore now store u c)) 100 + 1 / 2\<rfloor> \<le> 100
           \<and> \<bar>RecommendationScore.score r
                - RecommendationScore.score (calculateRecommendationScore now store u c)\<bar>
               \<le> 1 / 200 + 1 / 2 ^ 52
           \<and> 0 \<le> RecommendationScore.score r \<and> RecommendationScore.score r \<le> 1))"
proof -
  have "\<exists>u c. find (\<lambda>u. user_id u = uid) (users store) = Some u \<and> c \<in> set (articles store)
           \<and> article r = c
           \<and> RecommendationScore.score r
               = fdiv (real_of_int \<lfloor>fmul (RecommendationScore.score (calculateRecommendationScore now store u c)) 100 + 1 / 2\<rfloor>) 100
           \<and> 0 \<le> \<lfloor>fmul (RecommendationScore.score (calculateRecommendationScore now store u c)) 100 + 1 / 2\<rfloor>
           \<and> \<lfloor>fmul (RecommendationScore.score (calculateRecommendationScore now store u c)) 100 + 1 / 2\<rfloor> \<le> 100
           \<and> \<bar>RecommendationScore.score r
                - RecommendationScore.score (calculateRecommendationScore now store u c)\<bar>
               \<le> 1 / 200 + 1 / 2 ^ 52
           \<and> 0 \<le> RecommendationScore.score r \<and> RecommendationScore.score r \<le> 1"
    if h: "getRecommendationsResponse now store uid limit = Inr rs" "r \<in> set rs"
  proof -
    from response_members[OF h] obtain u c where
      uc: "find (\<lambda>u. user_id u = uid) (users store) = Some u" "c \<in> set (articles store)"
        "article r = c"
        "RecommendationScore.score r
           = round2 (RecommendationScore.score (calculateRecommendationScore now store u c))"
      by blast
    let ?raw = "RecommendationScore.score (calculateRecommendationScore now store u c)"
    have "0 \<le> ?raw" "?raw \<le> 1" using score_range[of now store u c] by simp_all
    from round2_props[OF this] have p:
      "0 \<le> \<lfloor>fmul ?raw 100 + 1 / 2\<rfloor>" "\<lfloor>fmul ?raw 100 + 1 / 2\<rfloor> \<le> 100"
      "0 \<le> round2 ?raw" "round2 ?raw \<le> 1" "\<bar>round2 ?raw - ?raw\<bar> \<le> 1 / 200 + 1 / 2 ^ 52"
      by blast+
    have d: "round2 ?raw = fdiv (real_of_int \<lfloor>fmul ?raw 100 + 1 / 2\<rfloor>) 100"
      by (simp only: round2_def)
    from uc(1,2,3) p d show ?thesis unfolding uc(4) by blast
  qed
  with score_eq[of now store user a] score_error[of now store user a]
    score_range[of now store user a]
  show ?thesis by blast
qed

theorem recommendation_score_in_unit_interval_witness:
  "getRecommendationsResponse sampleNow sampleStore 1 5 =
     Inr [\<lparr>article = sampleArticle, score = 3512807709348987 / 4503599627370496,
           reasons = [''Matches your interests: ai'', ''Recent content'']\<rparr>]
   \<and> (0::real) \<le> 3512807709348987 / 4503599627370496
   \<and> (3512807709348987 / 4503599627370496 :: real) \<le> 1
   \<and> 0 \<le> RecommendationScore.score (calculateRecommendationScore sampleNow sampleStore sampleUser sampleArticle)
   \<and> RecommendationScore.score (calculateRecommendationScore sampleNow sampleStore sampleUser sampleArticle) \<le> 1"
proof -
  let ?r = "\<lparr>article = sampleArticle, score = 3512807709348987 / 4503599627370496,
             reasons = [''Matches your interests: ai'', ''Recent content'']\<rparr>"
  note t = recommendation_score_in_unit_interval[of sampleNow sampleStore sampleUser sampleArticle
      1 5 "[?r]" ?r]
  have m: "?r \<in> set [?r]" by simp
  from t have b: "0 \<le> RecommendationScore.score (calculateRecommendationScore sampleNow sampleStore sampleUser sampleArticle)"
    and c: "RecommendationScore.score (calculateRecommendationScore sampleNow sampleStore sampleUser sampleArticle) \<le> 1"
    by blast+
  from t sample_response m
  have "0 \<le> RecommendationScore.score ?r \<and> RecommendationScore.score ?r \<le> 1" by blast
  then have d: "(0::real) \<le> 3512807709348987 / 4503599627370496
      \<and> (3512807709348987 / 4503599627370496 :: real) \<le> 1"
    by (simp only: RecommendationScore.simps)
  from sample_response b c d show ?thesis by blast
qed

text \<open>
  The claim as the specification words it fails. Take a reader without interests and a
  candidate of ten days ago without interactions, whose author has one other article. When
  that article has six shares the signals are 0, 0, 0.7 and 0.15: the exact weighted sum
  0.155 rounds to 0.16, but the sum on doubles is 0.15499999999999997 and the controller
  returns 0.15. When it has fourteen shares the combined score is a double below 0.175,
  whose nearest hundredth is 0.17; its double product with 100 is 17.5, and the controller
  returns 0.18.
\<close>

theorem recommendation_score_counterexample:
  "getRecommendationsResponse sampleNow (sharesStore 6) 1 5 =
     Inr [\<lparr>article = candidateArticle, score = 5404319552844595 / 36028797018963968,
           reasons = [''General recommendation'']\<rparr>]
   \<and> (5404319552844595 / 36028797018963968 :: real) < 151 / 1000
   \<and> spec_round2 (spec_recommendationScore sampleNow (sharesStore 6) quietUser candidateArticle)
       = 16 / 100
   \<and> RecommendationScore.score
        (calculateRecommendationScore sampleNow (sharesStore 14) quietUser candidateArticle)
       = 3152519739159347 / 18014398509481984
   \<and> (3152519739159347 / 18014398509481984 :: real) < 175 / 1000
   \<and> getRecommendationsResponse sampleNow (sharesStore 14) 1 5 =
     Inr [\<lparr>article = candidateArticle, score = 3242591731706757 / 18014398509481984,
           reasons = [''General recommendation'']\<rparr>]
   \<and> (179 / 1000 :: real) < 3242591731706757 / 18014398509481984"
proof -
  have a: "(5404319552844595 / 36028797018963968 :: real) < 151 / 1000" by simp
  have b: "(3152519739159347 / 18014398509481984 :: real) < 175 / 1000" by simp
  have c: "(179 / 1000 :: real) < 3242591731706757 / 18014398509481984" by simp
  have d: "RecommendationScore.score
        (calculateRecommendationScore sampleNow (sharesStore 14) quietUser candidateArticle)
       = 3152519739159347 / 18014398509481984"
    unfolding shares14_score by (simp only: RecommendationScore.simps)
  from shares6_response a shares6_spec d b shares14_response c show ?thesis by blast
qed

text \<open>
  Claim C3, as amended. The author-reputation signal is the average popularity score over
  the first articles by that author, at most 10, in the order in which the store returns
  them (the query asks for no order and does not leave out the candidate). The popularity
  scores are added to 0 in that order and the sum is divided by their number, on doubles.
  The signal is the default one half only when the store holds no article by the author;
  for a stored candidate it is the average, at most \<open>1/2^46\<close> away from the exact
  average of these popularity scores.
\<close>

theorem author_score_average:
  "calculateAuthorScore store a =
     (if filter (\<lambda>x. author x = a) (articles store) = [] then 1 / 2
      else fdiv (foldl (\<lambda>total x. fadd total x) 0
                   (map (\<lambda>x. calculatePopularityScore store (article_id x))
                      (take 10 (filter (\<lambda>x. author x = a) (articles store)))))
             (real (length (take 10 (filter (\<lambda>x. author x = a) (articles store))))))
   \<and> (candidate \<in> set (articles store) \<longrightarrow>
        calculateAuthorScore store (author candidate) =
          fdiv (foldl (\<lambda>total x. fadd total x) 0
                  (map (\<lambda>x. calculatePopularityScore store (article_id x))
                     (take 10 (filter (\<lambda>x. author x = author candidate) (articles store)))))
            (real (length (take 10 (filter (\<lambda>x. author x = author candidate) (articles store)))))
        \<and> \<bar>calculateAuthorScore store (author candidate)
             - sum_list (map (\<lambda>x. calculatePopularityScore store (article_id x))
                           (take 10 (filter (\<lambda>x. author x = author candidate) (articles store))))
               / real (length (take 10 (filter (\<lambda>x. author x = author candidate) (articles store))))\<bar>
            \<le> 1 / 2 ^ 46)"
proof -
  have eq: "calculateAuthorScore store a =
     (if filter (\<lambda>x. author x = a) (articles store) = [] then 1 / 2
      else fdiv (foldl (\<lambda>total x. fadd total x) 0
                   (map (\<lambda>x. calculatePopularityScore store (article_id x))
                      (take 10 (filter (\<lambda>x. author x = a) (articles store)))))
             (real (length (take 10 (filter (\<lambda>x. author x = a) (articles store))))))" for a
    unfolding authorScore_eq Let_def by (simp del: length_take)
  have "calculateAuthorScore store (author candidate) =
          fdiv (foldl (\<lambda>total x. fadd total x) 0
                  (map (\<lambda>x. calculatePopularityScore store (article_id x))
                     (take 10 (filter (\<lambda>x. author x = author candidate) (articles store)))))
            (real (length (take 10 (filter (\<lambda>x. author x = author candidate) (articles store)))))
        \<and> \<bar>calculateAuthorScore store (author candidate)
             - sum_list (map (\<lambda>x. calculatePopularityScore store (article_id x))
                           (take 10 (filter (\<lambda>x. author x = author candidate) (articles store))))
               / real (length (take 10 (filter (\<lambda>x. author x = author candidate) (articles store))))\<bar>
            \<le> 1 / 2 ^ 46"
    if c: "candidate \<in> set (articles store)"
  proof -
    have n: "filter (\<lambda>x. author x = author candidate) (articles store) \<noteq> []"
      using c by (auto simp: filter_empty_conv)
    from eq[of "author candidate"] n author_average_error[OF n] show ?thesis by simp
  qed
  with eq[of a] show ?thesis by blast
qed

theorem author_score_average_witness:
  "loneArticle \<in> set (articles loneStore)
   \<and> calculateAuthorScore loneStore (author loneArticle)
       = calculatePopularityScore loneStore (article_id loneArticle)"
proof -
  have m: "loneArticle \<in> set (articles loneStore)" by (simp add: loneStore_def)
  have f: "take 10 (filter (\<lambda>x. author x = author loneArticle) (articles loneStore)) = [loneArticle]"
    by (simp add: loneStore_def)
  from author_score_average[of loneStore "author loneArticle" loneArticle] m
  have "calculateAuthorScore loneStore (author loneArticle) =
          fdiv (foldl (\<lambda>total x. fadd total x) 0
                  (map (\<lambda>x. calculatePopularityScore loneStore (article_id x))
                     (take 10 (filter (\<lambda>x. author x = author loneArticle) (articles loneStore)))))
            (real (length (take 10 (filter (\<lambda>x. author x = author loneArticle) (articles loneStore)))))"
    by blast
  with m show ?thesis
    by (simp only: f) (simp add: lone_popularity fadd_def fdiv_def round64_zero)
qed

text \<open>
  The claim as the specification words it fails. An author whose only article is the
  candidate, without interactions, gets 0 and not one half. Of eleven articles stored from
  the oldest to the newest the signal averages the ten oldest, not the ten most recent.
\<close>

theorem author_score_counterexample:
  "filter (\<lambda>x. author x = author loneArticle \<and> article_id x \<noteq> article_id loneArticle)
     (articles loneStore) = []
   \<and> calculateAuthorScore loneStore (author loneArticle) = 0
   \<and> spec_authorScore loneStore loneArticle = 1 / 2
   \<and> calculateAuthorScore danStore (author (danArticle 11)) = 0
   \<and> spec_authorScore danStore (danArticle 11) = 3 / 1000"
  by code_simp

text \<open>
  Claim C2, evaluated on two articles of the last day. The first has one like (engagement
  3), the second one share and one comment (engagement 9). The service ranks by the number
  of likes: with the limit 1 it returns the first article, and with the limit 2 it returns
  both in the order of the collection. The static method of the interaction model ranks by
  engagement and returns the second article first.
\<close>

theorem trending_ranks_by_likes:
  "getTrendingArticles sampleNow trendStore 1 = [likedArticle]
   \<and> map fst (statics_getTrendingArticles sampleNow trendStore 24 1) = [sharedArticle]
   \<and> getTrendingArticles sampleNow trendStore 2 = [likedArticle, sharedArticle]
   \<and> map fst (statics_getTrendingArticles sampleNow trendStore 24 2) = [sharedArticle, likedArticle]
   \<and> map (engagementScore \<circ> snd) (statics_getTrendingArticles sampleNow trendStore 24 2) = [9, 3]"
  by code_simp

end
